theory Spec2Isabelle
  imports Main
begin

section \<open>Values shared by the two source files\<close>

text \<open>
  A JavaScript exception is a value. \<open>Error msg\<close> is \<^verbatim>\<open>new Error(msg)\<close>;
  \<open>TypeError\<close> is what the runtime raises when a method is called on \<^verbatim>\<open>undefined\<close>
  (for instance \<^verbatim>\<open>this.puppet.stop()\<close> before a puppet has been set).
\<close>

datatype error = Error string | TypeError string

text \<open>
  The two promises of a \<^verbatim>\<open>StateSwitch\<close> that \<^verbatim>\<open>ready('on')\<close> and
  \<^verbatim>\<open>ready('off')\<close> wait for.
\<close>

datatype target = StateOn | StateOff

text \<open>
  The outcome of running a function: it returns (an \<^verbatim>\<open>async\<close> function resolves),
  it throws (an \<^verbatim>\<open>async\<close> function rejects), or it is suspended at
  \<^verbatim>\<open>await this.state.ready(...)\<close> on a promise that is not resolved yet.
\<close>

datatype 'a result = Return 'a | Throw error | Await target

text \<open>The classes of \<^verbatim>\<open>./user/mod\<close> whose objects are loaded by id.\<close>

datatype user_class =
  Contact | ContactSelf | Friendship | Image | Message | Room | RoomInvitation | Tag | Post

datatype entity = Entity user_class string

type_synonym Date = int

type_synonym FileBox = string

record UrlLink =
  url :: string
  title :: string
  description :: "string option"
  thumbnailUrl :: "string option"

text \<open>\<^verbatim>\<open>PUPPET.payload.Moment\<close>, the structure handed to \<^verbatim>\<open>puppet.momentPost\<close>.\<close>

record Moment =
  textMaterial :: "string option"
  imageMaterialList :: "FileBox list"
  videoMaterial :: "FileBox option"
  urlMaterial :: "UrlLink option"

text \<open>
  \<^verbatim>\<open>SayablePayload\<close> is a union tagged by \<^verbatim>\<open>type.Message.*\<close>. The four kinds that
  \<^verbatim>\<open>generateMomentPayload\<close> reads carry their payload; every other kind reaches the
  \<^verbatim>\<open>default\<close> branch, where the payload is never read.
\<close>

datatype other_kind =
  Message_Attachment | Message_Audio | Message_Contact | Message_Emoticon
  | Message_Location | Message_MiniProgram | Message_Post | Message_Unknown

datatype SayablePayload =
  Message_Text string
  | Message_Video FileBox
  | Message_Image FileBox
  | Message_Url UrlLink
  | Message_Other other_kind

record PostPayload =
  sayableList :: "SayablePayload list"

record PostInterface =
  payload :: PostPayload

section \<open>The bot instance (class \<^verbatim>\<open>Wechaty\<close>)\<close>

text \<open>
  \<^verbatim>\<open>StateSwitch\<close> (package state-switch): \<open>onoff\<close> and \<open>pending\<close> are its two
  flags; \<open>onResolved\<close> (\<open>offResolved\<close>) says that the promise awaited by
  \<^verbatim>\<open>ready('on')\<close> (\<^verbatim>\<open>ready('off')\<close>) is resolved.
\<close>

record StateSwitch =
  onoff :: bool
  pending :: bool
  onResolved :: bool
  offResolved :: bool

datatype switch_value = SFalse | STrue | SPending

datatype MemoryCard = MemoryCard "string option" | Multiplex MemoryCard string

datatype Io = Io string

record Puppet =
  puppet_name :: string
  puppet_memory :: "MemoryCard option"
  puppet_handlers :: "string list"

record WechatyOptions =
  opt_memory :: "MemoryCard option"
  opt_name :: "string option"
  opt_profile :: "string option"
  opt_puppet :: "string option"
  opt_puppetOptions :: "string option"
  opt_ioToken :: "string option"

text \<open>The arguments of the events the bot emits on itself.\<close>

datatype event =
  EvDong "string option"
  | EvError error
  | EvFriendship entity
  | EvHeartbeat string
  | EvLogin entity
  | EvLogout entity "string option"
  | EvMessage entity
  | EvReady
  | EvRoomInvite entity
  | EvRoomJoin entity "entity list" entity Date
  | EvRoomLeave entity "entity list" entity Date
  | EvRoomTopic entity string string entity Date
  | EvScan string nat "string option"
  | EvStart
  | EvStop
  | EvPuppet Puppet

fun event_name :: "event \<Rightarrow> string" where
  "event_name (EvDong _) = ''dong''"
| "event_name (EvError _) = ''error''"
| "event_name (EvFriendship _) = ''friendship''"
| "event_name (EvHeartbeat _) = ''heartbeat''"
| "event_name (EvLogin _) = ''login''"
| "event_name (EvLogout _ _) = ''logout''"
| "event_name (EvMessage _) = ''message''"
| "event_name EvReady = ''ready''"
| "event_name (EvRoomInvite _) = ''room-invite''"
| "event_name (EvRoomJoin _ _ _ _) = ''room-join''"
| "event_name (EvRoomLeave _ _ _ _) = ''room-leave''"
| "event_name (EvRoomTopic _ _ _ _ _) = ''room-topic''"
| "event_name (EvScan _ _ _) = ''scan''"
| "event_name EvStart = ''start''"
| "event_name EvStop = ''stop''"
| "event_name (EvPuppet _) = ''puppet''"

text \<open>The events emitted on a Room or a Contact object.\<close>

datatype entity_event =
  OnMessage entity
  | OnJoin "entity list" entity Date
  | OnLeave "entity list" entity Date
  | OnTopic string string entity Date
  | OnFriendship entity

datatype puppet_call =
  PStart | PStop | PSelfId | PLogonoff
  | PRoomPayloadDirty string
  | PRoomMemberPayloadDirty string
  | PMomentPost Moment

text \<open>
  What the code does to the world outside the bot object, in the order it does it.
  The field \<open>trace\<close> of the bot collects these; it is the only field that is not a
  field of the class.
\<close>

datatype action =
  Emit event
  | EntityEmit entity entity_event
  | LoadCall entity
  | ReadyCall entity
  | SyncCall entity
  | MemoryLoad
  | PuppetResolve string
  | PuppetCall puppet_call
  | IoStart
  | IoStop
  | PluginInvoke string

text \<open>
  A listener registered with \<^verbatim>\<open>on\<close>. A listener supplied by the application either
  returns or throws; \<open>MemoryCheck\<close> is the closure \<^verbatim>\<open>() => this.memoryCheck()\<close> that
  \<^verbatim>\<open>start\<close> registers on \<^verbatim>\<open>heartbeat\<close>.
\<close>

datatype listener = Returns | Throws error | MemoryCheck

record Wechaty =
  state :: StateSwitch
  readyState :: StateSwitch
  memory :: "MemoryCard option"
  lifeTimer :: "nat option"
  io :: "Io option"
  puppet :: "Puppet option"
  wechaty_id :: string
  options :: WechatyOptions
  class_puppet :: "(user_class \<times> Puppet) list"
  listeners :: "(string \<times> listener) list"
  trace :: "action list"

text \<open>
  Everything the code calls and this repository does not define: the outcome of each
  call is read from the environment. \<open>None\<close> for an \<open>error option\<close> means that the
  call returned (its promise resolved). \<open>settles_at\<close> is the time at which the promise
  of \<^verbatim>\<open>ready()\<close> of an entity settles; it decides which rejection a \<^verbatim>\<open>Promise.all\<close>
  sees first.
\<close>

record env =
  cuid :: string
  systemPuppetName :: string
  PUPPET_EVENT_DICT_keys :: "string list"
  freemem :: nat
  memory_load :: "error option"
  PuppetManager_resolve :: "error + Puppet"
  puppet_start :: "error option"
  puppet_stop :: "error option"
  io_start :: "error option"
  io_stop :: "error option"
  puppet_logonoff :: "error + bool"
  puppet_selfId :: "error + string"
  puppet_roomPayloadDirty :: "string \<Rightarrow> error option"
  puppet_roomMemberPayloadDirty :: "string \<Rightarrow> error option"
  puppet_momentPost :: "Moment \<Rightarrow> error + string option"
  entity_ready :: "entity \<Rightarrow> error option"
  entity_sync :: "entity \<Rightarrow> error option"
  entity_emit :: "entity \<Rightarrow> entity_event \<Rightarrow> error option"
  settles_at :: "entity \<Rightarrow> nat"
  instanceToClass_load :: "error option"
  message_room :: "string \<Rightarrow> error + string option"
  friendship_contact :: "string \<Rightarrow> error + string"
  timestampToDate :: "int \<Rightarrow> Date"

section \<open>Sequencing, exceptions and \<^verbatim>\<open>try\<close>/\<^verbatim>\<open>catch\<close>\<close>

text \<open>
  A method of the bot takes the bot and returns its outcome with the bot as it has
  left it. An \<^verbatim>\<open>async\<close> method is run to its end: the outcome of each call it
  awaits is read from the environment, and no other task runs in between. The one
  place where a call depends on another task is the wait for the \<^verbatim>\<open>StateSwitch\<close>,
  which is the outcome \<open>Await\<close>. Log lines and the crash reporter are left out.
\<close>

type_synonym 'a prog = "Wechaty \<Rightarrow> 'a result \<times> Wechaty"

definition ret :: "'a \<Rightarrow> 'a prog" where
  "ret x = (\<lambda>b. (Return x, b))"

definition throw :: "error \<Rightarrow> 'a prog" where
  "throw e = (\<lambda>b. (Throw e, b))"

definition bnd :: "'a prog \<Rightarrow> ('a \<Rightarrow> 'b prog) \<Rightarrow> 'b prog" where
  "bnd m f = (\<lambda>b. case m b of
      (Return x, b') \<Rightarrow> f x b'
    | (Throw e, b') \<Rightarrow> (Throw e, b')
    | (Await t, b') \<Rightarrow> (Await t, b'))"

definition try_catch :: "'a prog \<Rightarrow> (error \<Rightarrow> 'a prog) \<Rightarrow> 'a prog" where
  "try_catch m h = (\<lambda>b. case m b of
      (Throw e, b') \<Rightarrow> h e b'
    | other \<Rightarrow> other)"

definition log :: "action \<Rightarrow> unit prog" where
  "log a = (\<lambda>b. (Return (), b\<lparr>trace := trace b @ [a]\<rparr>))"

text \<open>A call whose outcome the environment decides: it is logged, then returns or throws.\<close>

definition call :: "action \<Rightarrow> error option \<Rightarrow> unit prog" where
  "call a outcome = bnd (log a) (\<lambda>_. case outcome of None \<Rightarrow> ret () | Some e \<Rightarrow> throw e)"

definition call_value :: "action \<Rightarrow> error + 'a \<Rightarrow> 'a prog" where
  "call_value a outcome = bnd (log a) (\<lambda>_. case outcome of Inr v \<Rightarrow> ret v | Inl e \<Rightarrow> throw e)"

text \<open>
  A method call on \<^verbatim>\<open>this.puppet\<close>: the field is \<^verbatim>\<open>undefined\<close> until
  \<^verbatim>\<open>initPuppetAccessory\<close> has run, and a call on \<^verbatim>\<open>undefined\<close> raises a TypeError.
\<close>

definition on_puppet :: "puppet_call \<Rightarrow> error + 'a \<Rightarrow> 'a prog" where
  "on_puppet c outcome = (\<lambda>b. case puppet b of
      None \<Rightarrow> (Throw (TypeError ''Cannot read properties of undefined''), b)
    | Some _ \<Rightarrow> call_value (PuppetCall c) outcome b)"

definition unit_outcome :: "error option \<Rightarrow> error + unit" where
  "unit_outcome outcome = (case outcome of None \<Rightarrow> Inr () | Some e \<Rightarrow> Inl e)"

definition load :: "user_class \<Rightarrow> string \<Rightarrow> entity prog" where
  "load c i = bnd (log (LoadCall (Entity c i))) (\<lambda>_. ret (Entity c i))"

definition ready :: "env \<Rightarrow> entity \<Rightarrow> unit prog" where
  "ready env x = call (ReadyCall x) (entity_ready env x)"

text \<open>
  Modelled from the spec: \<^verbatim>\<open>Room.sync()\<close> is defined in \<^verbatim>\<open>src/user/room.ts\<close>, which is
  not among the source files. By the spec (4.1) a hydrated payload is fetched again
  after a payload-dirty signal, and \<^verbatim>\<open>sync\<close> (4.4, load+sync Room) is the forced
  fetch of a room: the payload-dirty signals for the room and for its members, sent
  through the puppet, then the fetch of the payload, whose outcome the environment
  gives (\<open>SyncCall\<close> in the trace is that fetch).
\<close>

definition sync :: "env \<Rightarrow> entity \<Rightarrow> unit prog" where
  "sync env x = (case x of Entity c i \<Rightarrow>
     bnd (on_puppet (PRoomPayloadDirty i) (unit_outcome (puppet_roomPayloadDirty env i))) (\<lambda>_.
     bnd (on_puppet (PRoomMemberPayloadDirty i) (unit_outcome (puppet_roomMemberPayloadDirty env i))) (\<lambda>_.
     call (SyncCall x) (entity_sync env x))))"

section \<open>\<^verbatim>\<open>src/user-modules/moment.ts\<close>\<close>

text \<open>
  The \<^verbatim>\<open>for\<close> loop of \<^verbatim>\<open>generateMomentPayload\<close>, with the four local variables as the
  fields of the accumulator. The \<^verbatim>\<open>default\<close> branch throws.
\<close>

fun generateMomentPayload_loop :: "SayablePayload list \<Rightarrow> Moment \<Rightarrow> error + Moment" where
  "generateMomentPayload_loop [] m = Inr m"
| "generateMomentPayload_loop (Message_Text p # rest) m =
     generateMomentPayload_loop rest (m\<lparr>textMaterial := Some p\<rparr>)"
| "generateMomentPayload_loop (Message_Video p # rest) m =
     generateMomentPayload_loop rest (m\<lparr>videoMaterial := Some p\<rparr>)"
| "generateMomentPayload_loop (Message_Image p # rest) m =
     generateMomentPayload_loop rest (m\<lparr>imageMaterialList := imageMaterialList m @ [p]\<rparr>)"
| "generateMomentPayload_loop (Message_Url p # rest) m =
     generateMomentPayload_loop rest (m\<lparr>urlMaterial := Some p\<rparr>)"
| "generateMomentPayload_loop (Message_Other k # rest) m =
     Inl (Error ''Can not convert sayable to moment material when create moment payload'')"

definition generateMomentPayload :: "PostInterface \<Rightarrow> error + Moment" where
  "generateMomentPayload p =
     generateMomentPayload_loop (sayableList (payload p))
       \<lparr>textMaterial = None, imageMaterialList = [], videoMaterial = None, urlMaterial = None\<rparr>"

text \<open>
  \<^verbatim>\<open>Moment.post\<close>. The result \<open>None\<close> is the \<^verbatim>\<open>void\<close> of the source: the backend
  returned no id (\<^verbatim>\<open>undefined\<close> or the empty string, both falsy).
  \<^verbatim>\<open>instanceToClass\<close> is a function of the package clone-class, and whether
  \<^verbatim>\<open>instanceToClass(this, PostImpl).load(momentId)\<close> raises is read from the
  environment. In this static method \<^verbatim>\<open>this\<close> is the class and not an instance of it,
  and the package returns \<^verbatim>\<open>this.constructor\<close>, which is \<^verbatim>\<open>Function\<close> and has no
  \<^verbatim>\<open>load\<close>: that call raises a TypeError, which is the outcome in the environment
  of the examples.
\<close>

definition post :: "env \<Rightarrow> PostInterface \<Rightarrow> entity option prog" where
  "post env p =
     (case generateMomentPayload p of
        Inl e \<Rightarrow> throw e
      | Inr momentPayload \<Rightarrow>
          bnd (on_puppet (PMomentPost momentPayload) (puppet_momentPost env momentPayload))
            (\<lambda>momentId. case momentId of
                None \<Rightarrow> ret None
              | Some i \<Rightarrow>
                  if i = [] then ret None
                  else (case instanceToClass_load env of
                          Some e \<Rightarrow> throw e
                        | None \<Rightarrow>
                            bnd (load Post i) (\<lambda>newPost.
                            bnd (ready env newPost) (\<lambda>_. ret (Some newPost))))))"

text \<open>The buckets as the specification words them, for comparison with the loop.\<close>

fun is_material :: "SayablePayload \<Rightarrow> bool" where
  "is_material (Message_Other _) = False"
| "is_material _ = True"

fun texts :: "SayablePayload list \<Rightarrow> string list" where
  "texts [] = []"
| "texts (Message_Text p # rest) = p # texts rest"
| "texts (_ # rest) = texts rest"

fun videos :: "SayablePayload list \<Rightarrow> FileBox list" where
  "videos [] = []"
| "videos (Message_Video p # rest) = p # videos rest"
| "videos (_ # rest) = videos rest"

fun images :: "SayablePayload list \<Rightarrow> FileBox list" where
  "images [] = []"
| "images (Message_Image p # rest) = p # images rest"
| "images (_ # rest) = images rest"

fun urls :: "SayablePayload list \<Rightarrow> UrlLink list" where
  "urls [] = []"
| "urls (Message_Url p # rest) = p # urls rest"
| "urls (_ # rest) = urls rest"

definition last_seen :: "'a list \<Rightarrow> 'a option" where
  "last_seen xs = (if xs = [] then None else Some (last xs))"

definition moment_buckets :: "SayablePayload list \<Rightarrow> error + Moment" where
  "moment_buckets xs =
     (if list_all is_material xs
      then Inr \<lparr>textMaterial = last_seen (texts xs), imageMaterialList = images xs,
                videoMaterial = last_seen (videos xs), urlMaterial = last_seen (urls xs)\<rparr>
      else Inl (Error ''Can not convert sayable to moment material when create moment payload''))"

section \<open>\<^verbatim>\<open>StateSwitch\<close>\<close>

text \<open>
  \<^verbatim>\<open>on()\<close> and \<^verbatim>\<open>off()\<close> without an argument read the switch: \<^verbatim>\<open>true\<close>,
  \<^verbatim>\<open>'pending'\<close> or \<^verbatim>\<open>false\<close>. With the argument \<^verbatim>\<open>true\<close> or \<^verbatim>\<open>'pending'\<close> they
  set it: the promise of the other side is renewed, and the promise of this side is
  resolved when the argument is \<^verbatim>\<open>true\<close>. The argument of the setters below says
  whether the new state is pending.
\<close>

definition switch_on :: "StateSwitch \<Rightarrow> switch_value" where
  "switch_on s = (if onoff s then (if pending s then SPending else STrue) else SFalse)"

definition switch_off :: "StateSwitch \<Rightarrow> switch_value" where
  "switch_off s = (if \<not> onoff s then (if pending s then SPending else STrue) else SFalse)"

definition switch_set_on :: "bool \<Rightarrow> StateSwitch \<Rightarrow> StateSwitch" where
  "switch_set_on p s =
     s\<lparr>onoff := True, pending := p, offResolved := False, onResolved := (onResolved s \<or> \<not> p)\<rparr>"

definition switch_set_off :: "bool \<Rightarrow> StateSwitch \<Rightarrow> StateSwitch" where
  "switch_set_off p s =
     s\<lparr>onoff := False, pending := p, onResolved := False, offResolved := (offResolved s \<or> \<not> p)\<rparr>"

definition new_StateSwitch :: StateSwitch where
  "new_StateSwitch = \<lparr>onoff = False, pending = False, onResolved = False, offResolved = True\<rparr>"

text \<open>
  \<^verbatim>\<open>await this.state.ready('on')\<close> and \<^verbatim>\<open>await this.state.ready('off')\<close>: the caller
  goes on when the promise is resolved, and is suspended on it otherwise.
\<close>

definition resolved :: "target \<Rightarrow> Wechaty \<Rightarrow> bool" where
  "resolved t b = (case t of StateOn \<Rightarrow> onResolved (state b) | StateOff \<Rightarrow> offResolved (state b))"

definition state_ready :: "target \<Rightarrow> unit prog" where
  "state_ready t = (\<lambda>b. if resolved t b then (Return (), b) else (Await t, b))"

text \<open>
  A suspended call goes on once its promise is resolved. In both places where the code
  waits for the switch, what follows the \<^verbatim>\<open>await\<close> is a log line and \<^verbatim>\<open>return\<close>, so
  the call then resolves and does nothing more.
\<close>

definition resume :: "unit result \<Rightarrow> Wechaty \<Rightarrow> unit result" where
  "resume r b = (case r of Await t \<Rightarrow> (if resolved t b then Return () else Await t) | other \<Rightarrow> other)"

section \<open>\<^verbatim>\<open>emit\<close> and \<^verbatim>\<open>on\<close>\<close>

text \<open>
  \<^verbatim>\<open>EventEmitter.emit\<close> of the runtime: the listeners of the event are called in the
  order of their registration and an exception of a listener leaves \<^verbatim>\<open>emit\<close>; an
  \<^verbatim>\<open>'error'\<close> event without any listener throws its argument. Every call of
  \<^verbatim>\<open>this.emit\<close> is logged. The first argument is what the \<open>MemoryCheck\<close> listener does.
\<close>

definition listeners_of :: "Wechaty \<Rightarrow> string \<Rightarrow> listener list" where
  "listeners_of b n = map snd (filter (\<lambda>nl. fst nl = n) (listeners b))"

fun invoke_with :: "unit prog \<Rightarrow> listener list \<Rightarrow> unit prog" where
  "invoke_with mc [] = ret ()"
| "invoke_with mc (Returns # ls) = invoke_with mc ls"
| "invoke_with mc (Throws e # ls) = throw e"
| "invoke_with mc (MemoryCheck # ls) = bnd mc (\<lambda>_. invoke_with mc ls)"

definition emit_with :: "unit prog \<Rightarrow> event \<Rightarrow> bool prog" where
  "emit_with mc ev =
     bnd (log (Emit ev)) (\<lambda>_ b.
       let ls = listeners_of b (event_name ev) in
       if ls = [] then (case ev of EvError e \<Rightarrow> (Throw e, b) | _ \<Rightarrow> (Return False, b))
       else bnd (invoke_with mc ls) (\<lambda>_. ret True) b)"

text \<open>
  \<^verbatim>\<open>memoryCheck\<close>. The \<^verbatim>\<open>'error'\<close> it emits goes to the listeners of \<^verbatim>\<open>'error'\<close>,
  among which there is no \<open>MemoryCheck\<close>: the closure is registered on
  \<^verbatim>\<open>'heartbeat'\<close> only. The message of the error is shortened: the source adds the
  two numbers to it.
\<close>

definition memoryCheck :: "env \<Rightarrow> unit prog" where
  "memoryCheck env =
     (if freemem env div 1024 div 1024 < 4
      then bnd (emit_with (ret ()) (EvError (Error ''memory not enough''))) (\<lambda>_. ret ())
      else ret ())"

definition emit :: "env \<Rightarrow> event \<Rightarrow> bool prog" where
  "emit env ev = emit_with (memoryCheck env) ev"

definition on :: "string \<Rightarrow> listener \<Rightarrow> unit prog" where
  "on n l = (\<lambda>b. (Return (), b\<lparr>listeners := listeners b @ [(n, l)]\<rparr>))"

section \<open>Plugins\<close>

text \<open>
  A \<^verbatim>\<open>WechatyPlugin\<close> is a function of the application: called with the bot, it
  changes the bot and returns nothing or an uninstaller, or it throws. An uninstaller
  is a closure over the bot, here what it would do to the bot if it were called. The
  name is not in the source; it identifies the plugin in the trace.
\<close>

type_synonym WechatyPluginUninstaller = "Wechaty \<Rightarrow> Wechaty"

record WechatyPlugin =
  plugin_name :: string
  plugin_body :: "Wechaty \<Rightarrow> (error + WechatyPluginUninstaller option) \<times> Wechaty"

datatype plugin_arg = One WechatyPlugin | Many "WechatyPlugin list"

fun flat :: "plugin_arg list \<Rightarrow> WechatyPlugin list" where
  "flat [] = []"
| "flat (One p # rest) = p # flat rest"
| "flat (Many ps # rest) = ps @ flat rest"

text \<open>\<^verbatim>\<open>plugin(this)\<close>\<close>

definition apply_plugin ::
  "WechatyPlugin \<Rightarrow> Wechaty \<Rightarrow> (error + WechatyPluginUninstaller option) \<times> Wechaty" where
  "apply_plugin p b = plugin_body p (b\<lparr>trace := trace b @ [PluginInvoke (plugin_name p)]\<rparr>)"

text \<open>
  \<^verbatim>\<open>pluginList.forEach(plugin => plugin(this))\<close>: \<^verbatim>\<open>forEach\<close> drops what its callback
  returns, and an exception of a plugin ends the loop.
\<close>

fun forEach_plugin :: "WechatyPlugin list \<Rightarrow> Wechaty \<Rightarrow> (error + unit) \<times> Wechaty" where
  "forEach_plugin [] b = (Inr (), b)"
| "forEach_plugin (p # ps) b =
     (case apply_plugin p b of
        (Inl e, b') \<Rightarrow> (Inl e, b')
      | (Inr u, b') \<Rightarrow> forEach_plugin ps b')"

definition use :: "plugin_arg list \<Rightarrow> Wechaty \<Rightarrow> (error + unit) \<times> Wechaty" where
  "use plugins = forEach_plugin (flat plugins)"

definition installGlobalPlugin :: "WechatyPlugin list \<Rightarrow> Wechaty \<Rightarrow> (error + unit) \<times> Wechaty" where
  "installGlobalPlugin globalPluginList = forEach_plugin globalPluginList"

section \<open>The constructor and the static members\<close>

text \<open>
  \<^verbatim>\<open>new Wechaty(options)\<close>, given the static \<^verbatim>\<open>globalPluginList\<close>. A string option of
  the source is falsy when it is absent or empty.
\<close>

definition falsy :: "string option \<Rightarrow> bool" where
  "falsy s = (s = None \<or> s = Some [])"

definition empty_options :: WechatyOptions where
  "empty_options = \<lparr>opt_memory = None, opt_name = None, opt_profile = None, opt_puppet = None,
     opt_puppetOptions = None, opt_ioToken = None\<rparr>"

definition new_Wechaty ::
  "env \<Rightarrow> WechatyOptions option \<Rightarrow> WechatyPlugin list \<Rightarrow> (error + unit) \<times> Wechaty" where
  "new_Wechaty env opts globalPluginList =
     (let options0 = (case opts of None \<Rightarrow> empty_options | Some x \<Rightarrow> x);
          options1 = (if falsy (opt_name options0) \<and> \<not> falsy (opt_profile options0)
                      then options0\<lparr>opt_name := opt_profile options0\<rparr> else options0)
      in installGlobalPlugin globalPluginList
           \<lparr>state = new_StateSwitch, readyState = new_StateSwitch, memory = opt_memory options1,
            lifeTimer = None, io = None, puppet = None, wechaty_id = cuid env, options = options1,
            class_puppet = [], listeners = [], trace = []\<rparr>)"

text \<open>
  The static members of the class, and the objects that \<^verbatim>\<open>new\<close> has created: a
  reference is the position of the object in \<open>objects\<close>, so two references are the
  same object exactly when they are equal.
\<close>

record statics =
  globalInstance :: "nat option"
  globalPluginList :: "WechatyPlugin list"
  objects :: "Wechaty list"

definition "instance" :: "env \<Rightarrow> WechatyOptions option \<Rightarrow> statics \<Rightarrow> (error + nat) \<times> statics" where
  "instance env opts st =
     (if opts \<noteq> None \<and> globalInstance st \<noteq> None
      then (Inl (Error ''instance can be only initialized once by options!''), st)
      else case globalInstance st of
          Some r \<Rightarrow> (Inr r, st)
        | None \<Rightarrow>
            (case new_Wechaty env opts (globalPluginList st) of
               (Inr _, w) \<Rightarrow>
                 (Inr (length (objects st)),
                  st\<lparr>objects := objects st @ [w], globalInstance := Some (length (objects st))\<rparr>)
             | (Inl e, w) \<Rightarrow> (Inl e, st)))"

definition static_use :: "plugin_arg list \<Rightarrow> statics \<Rightarrow> statics" where
  "static_use plugins st = st\<lparr>globalPluginList := globalPluginList st @ flat plugins\<rparr>"

section \<open>The puppet event bridge\<close>

text \<open>The payload of each event the puppet emits.\<close>

datatype puppet_event =
  PuppetDong "string option"
  | PuppetError string
  | PuppetHeartbeat string
  | PuppetFriendship string
  | PuppetLogin string
  | PuppetLogout string "string option"
  | PuppetMessage string
  | PuppetReady
  | PuppetRoomInvite string
  | PuppetRoomJoin string "string list" string int
  | PuppetRoomLeave string "string list" string int
  | PuppetRoomTopic string string string string int
  | PuppetScan "string option" nat "string option"
  | PuppetReset string

fun load_all :: "user_class \<Rightarrow> string list \<Rightarrow> entity list prog" where
  "load_all c [] = ret []"
| "load_all c (i # rest) = bnd (load c i) (\<lambda>x. bnd (load_all c rest) (\<lambda>xs. ret (x # xs)))"

fun first_error :: "error option list \<Rightarrow> error option" where
  "first_error [] = None"
| "first_error (None # rest) = first_error rest"
| "first_error (Some e # rest) = Some e"

text \<open>
  \<^verbatim>\<open>await Promise.all(list.map(c => c.ready()))\<close>: \<^verbatim>\<open>ready()\<close> is called on every
  element, then the promises are awaited together. \<^verbatim>\<open>Promise.all\<close> resolves when all
  of them resolve and rejects with the rejection that comes first in time:
  \<open>earliest_rejection\<close> gives it with its time (of two rejections at the same time,
  the one of the earlier element).
\<close>

fun earliest_rejection :: "env \<Rightarrow> entity list \<Rightarrow> (nat \<times> error) option" where
  "earliest_rejection env [] = None"
| "earliest_rejection env (x # xs) =
     (case entity_ready env x of
        None \<Rightarrow> earliest_rejection env xs
      | Some e \<Rightarrow>
          (case earliest_rejection env xs of
             None \<Rightarrow> Some (settles_at env x, e)
           | Some (t, e') \<Rightarrow>
               if settles_at env x \<le> t then Some (settles_at env x, e) else Some (t, e')))"

definition ready_all :: "env \<Rightarrow> entity list \<Rightarrow> unit prog" where
  "ready_all env xs = (\<lambda>b.
     let b' = b\<lparr>trace := trace b @ map ReadyCall xs\<rparr> in
     case earliest_rejection env xs of
       None \<Rightarrow> (Return (), b')
     | Some (t, e) \<Rightarrow> (Throw e, b'))"

definition emit_on :: "env \<Rightarrow> entity \<Rightarrow> entity_event \<Rightarrow> unit prog" where
  "emit_on env x ev = call (EntityEmit x ev) (entity_emit env x ev)"

text \<open>\<^verbatim>\<open>msg.room()\<close> and \<^verbatim>\<open>friendship.contact()\<close>\<close>

definition room_of :: "env \<Rightarrow> entity \<Rightarrow> entity option prog" where
  "room_of env msg = (case msg of Entity _ i \<Rightarrow>
     (case message_room env i of
        Inl e \<Rightarrow> throw e
      | Inr None \<Rightarrow> ret None
      | Inr (Some r) \<Rightarrow> ret (Some (Entity Room r))))"

definition contact_of :: "env \<Rightarrow> entity \<Rightarrow> entity prog" where
  "contact_of env friendship = (case friendship of Entity _ i \<Rightarrow>
     (case friendship_contact env i of
        Inl e \<Rightarrow> throw e
      | Inr c \<Rightarrow> ret (Entity Contact c)))"

text \<open>
  The listener that \<^verbatim>\<open>initPuppetEventBridge\<close> registers on the puppet for each kind of
  event, applied to the payload of one event. For \<^verbatim>\<open>'reset'\<close> it registers none.
\<close>

fun handler :: "env \<Rightarrow> puppet_event \<Rightarrow> unit prog" where
  "handler env (PuppetDong data) = bnd (emit env (EvDong data)) (\<lambda>_. ret ())"
| "handler env (PuppetError data) = bnd (emit env (EvError (Error data))) (\<lambda>_. ret ())"
| "handler env (PuppetHeartbeat data) = bnd (emit env (EvHeartbeat data)) (\<lambda>_. ret ())"
| "handler env (PuppetFriendship friendshipId) =
     bnd (load Friendship friendshipId) (\<lambda>friendship.
     bnd (ready env friendship) (\<lambda>_.
     bnd (emit env (EvFriendship friendship)) (\<lambda>_.
     bnd (contact_of env friendship) (\<lambda>contact.
     emit_on env contact (OnFriendship friendship)))))"
| "handler env (PuppetLogin contactId) =
     bnd (load ContactSelf contactId) (\<lambda>contact.
     bnd (ready env contact) (\<lambda>_.
     bnd (emit env (EvLogin contact)) (\<lambda>_. ret ())))"
| "handler env (PuppetLogout contactId data) =
     bnd (load ContactSelf contactId) (\<lambda>contact.
     bnd (ready env contact) (\<lambda>_.
     bnd (emit env (EvLogout contact data)) (\<lambda>_. ret ())))"
| "handler env (PuppetMessage messageId) =
     bnd (load Message messageId) (\<lambda>msg.
     bnd (ready env msg) (\<lambda>_.
     bnd (emit env (EvMessage msg)) (\<lambda>_.
     bnd (room_of env msg) (\<lambda>room.
     case room of
       Some r \<Rightarrow> emit_on env r (OnMessage msg)
     | None \<Rightarrow> ret ()))))"
| "handler env PuppetReady =
     bnd (emit env EvReady) (\<lambda>_ b.
     (Return (), b\<lparr>readyState := switch_set_on False (readyState b)\<rparr>))"
| "handler env (PuppetRoomInvite roomInvitationId) =
     bnd (load RoomInvitation roomInvitationId) (\<lambda>roomInvitation.
     bnd (emit env (EvRoomInvite roomInvitation)) (\<lambda>_. ret ()))"
| "handler env (PuppetRoomJoin roomId inviteeIdList inviterId timestamp) =
     bnd (load Room roomId) (\<lambda>room.
     bnd (sync env room) (\<lambda>_.
     bnd (load_all Contact inviteeIdList) (\<lambda>inviteeList.
     bnd (ready_all env inviteeList) (\<lambda>_.
     bnd (load Contact inviterId) (\<lambda>inviter.
     bnd (ready env inviter) (\<lambda>_.
     bnd (emit env (EvRoomJoin room inviteeList inviter (timestampToDate env timestamp))) (\<lambda>_.
     emit_on env room (OnJoin inviteeList inviter (timestampToDate env timestamp)))))))))"
| "handler env (PuppetRoomLeave roomId removeeIdList removerId timestamp) =
     bnd (load Room roomId) (\<lambda>room.
     bnd (sync env room) (\<lambda>_.
     bnd (load_all Contact removeeIdList) (\<lambda>leaverList.
     bnd (ready_all env leaverList) (\<lambda>_.
     bnd (load Contact removerId) (\<lambda>remover.
     bnd (ready env remover) (\<lambda>_.
     bnd (emit env (EvRoomLeave room leaverList remover (timestampToDate env timestamp))) (\<lambda>_.
     bnd (emit_on env room (OnLeave leaverList remover (timestampToDate env timestamp))) (\<lambda>_.
     bnd (on_puppet PSelfId (puppet_selfId env)) (\<lambda>selfId.
     if selfId \<noteq> [] \<and> selfId \<in> set removeeIdList
     then bnd (on_puppet (PRoomPayloadDirty roomId)
                 (unit_outcome (puppet_roomPayloadDirty env roomId))) (\<lambda>_.
          on_puppet (PRoomMemberPayloadDirty roomId)
            (unit_outcome (puppet_roomMemberPayloadDirty env roomId)))
     else ret ())))))))))"
| "handler env (PuppetRoomTopic roomId newTopic oldTopic changerId timestamp) =
     bnd (load Room roomId) (\<lambda>room.
     bnd (sync env room) (\<lambda>_.
     bnd (load Contact changerId) (\<lambda>changer.
     bnd (ready env changer) (\<lambda>_.
     bnd (emit env (EvRoomTopic room newTopic oldTopic changer (timestampToDate env timestamp))) (\<lambda>_.
     emit_on env room (OnTopic newTopic oldTopic changer (timestampToDate env timestamp)))))))"
| "handler env (PuppetScan qrcode status data) =
     bnd (emit env (EvScan (case qrcode of None \<Rightarrow> [] | Some q \<Rightarrow> q) status data)) (\<lambda>_. ret ())"
| "handler env (PuppetReset data) = ret ()"

text \<open>
  \<^verbatim>\<open>initPuppetEventBridge\<close>: the loop over the names of \<^verbatim>\<open>PUPPET_EVENT_DICT\<close>. A
  registration is recorded in \<open>puppet_handlers\<close>; \<^verbatim>\<open>'reset'\<close> registers nothing and
  a name outside the list throws.
\<close>

definition bridged :: "string list" where
  "bridged = [''dong'', ''error'', ''heartbeat'', ''friendship'', ''login'', ''logout'', ''message'',
     ''ready'', ''room-invite'', ''room-join'', ''room-leave'', ''room-topic'', ''scan'']"

fun initPuppetEventBridge :: "string list \<Rightarrow> Puppet \<Rightarrow> error + Puppet" where
  "initPuppetEventBridge [] p = Inr p"
| "initPuppetEventBridge (eventName # rest) p =
     (if eventName \<in> set bridged
      then initPuppetEventBridge rest (p\<lparr>puppet_handlers := puppet_handlers p @ [eventName]\<rparr>)
      else if eventName = ''reset'' then initPuppetEventBridge rest p
      else Inl (Error (''eventName '' @ eventName @ '' unsupported!'')))"

definition initPuppetAccessory :: "env \<Rightarrow> Puppet \<Rightarrow> unit prog" where
  "initPuppetAccessory env p = (\<lambda>b.
     bnd (emit env (EvPuppet p)) (\<lambda>_. ret ())
       (b\<lparr>class_puppet :=
            map (\<lambda>c. (c, p)) [Contact, ContactSelf, Friendship, Image, Message, Room, RoomInvitation, Tag],
          puppet := Some p\<rparr>))"

definition initPuppet :: "env \<Rightarrow> unit prog" where
  "initPuppet env = (\<lambda>b.
     if puppet b \<noteq> None then (Return (), b)
     else case memory b of
       None \<Rightarrow> (Throw (Error ''no memory''), b)
     | Some m \<Rightarrow>
         bnd (call_value
                (PuppetResolve (if falsy (opt_puppet (options b)) then systemPuppetName env
                                else the (opt_puppet (options b))))
                (PuppetManager_resolve env)) (\<lambda>puppetInstance.
         case initPuppetEventBridge (PUPPET_EVENT_DICT_keys env)
                (puppetInstance\<lparr>puppet_memory := Some (Multiplex m ''puppet'')\<rparr>) of
           Inl e \<Rightarrow> throw e
         | Inr p \<Rightarrow> initPuppetAccessory env p) b)"

section \<open>\<^verbatim>\<open>start\<close>, \<^verbatim>\<open>stop\<close> and \<^verbatim>\<open>logonoff\<close>\<close>

definition stop :: "env \<Rightarrow> unit prog" where
  "stop env = (\<lambda>b.
     if switch_off (state b) \<noteq> SFalse then state_ready StateOff b
     else
       bnd (try_catch (on_puppet PStop (unit_outcome (puppet_stop env))) (\<lambda>e. ret ())) (\<lambda>_.
       bnd (try_catch
              (\<lambda>b1. case io b1 of
                  None \<Rightarrow> (Return (), b1)
                | Some _ \<Rightarrow> bnd (call IoStop (io_stop env)) (\<lambda>_ b2. (Return (), b2\<lparr>io := None\<rparr>)) b1)
              (\<lambda>e. bnd (emit env (EvError e)) (\<lambda>_. ret ()))) (\<lambda>_ b3.
       bnd (emit env EvStop) (\<lambda>_. ret ()) (b3\<lparr>state := switch_set_off False (state b3)\<rparr>)))
       (b\<lparr>readyState := switch_set_off False (readyState b),
          state := switch_set_off True (state b),
          lifeTimer := None\<rparr>))"

text \<open>
  The \<^verbatim>\<open>try\<close> block of \<^verbatim>\<open>start\<close>, and its \<^verbatim>\<open>catch\<close> block. The value says whether
  \<^verbatim>\<open>start\<close> goes on after the statement: the \<^verbatim>\<open>catch\<close> block ends with \<^verbatim>\<open>return\<close>.
\<close>

definition start_try :: "env \<Rightarrow> bool prog" where
  "start_try env = (\<lambda>b.
     bnd (try_catch (call MemoryLoad (memory_load env)) (\<lambda>e. ret ())) (\<lambda>_.
     bnd (initPuppet env) (\<lambda>_.
     bnd (on_puppet PStart (unit_outcome (puppet_start env))) (\<lambda>_ b1.
     case opt_ioToken (options b1) of
       None \<Rightarrow> (Return True, b1)
     | Some token \<Rightarrow>
         if token = [] then (Return True, b1)
         else bnd (call IoStart (io_start env)) (\<lambda>_. ret True) (b1\<lparr>io := Some (Io token)\<rparr>))))
       (case memory b of
          None \<Rightarrow> b\<lparr>memory := Some (MemoryCard (opt_name (options b)))\<rparr>
        | Some _ \<Rightarrow> b))"

definition start_catch :: "env \<Rightarrow> error \<Rightarrow> bool prog" where
  "start_catch env e =
     bnd (emit env (EvError e)) (\<lambda>_.
     bnd (try_catch (stop env) (\<lambda>e2. bnd (emit env (EvError e2)) (\<lambda>_. ret ()))) (\<lambda>_.
     ret False))"

text \<open>
  \<^verbatim>\<open>start\<close> up to \<^verbatim>\<open>this.state.on('pending')\<close>, then from the \<^verbatim>\<open>try\<close> statement on.
  The first part runs without a pause; the second part contains every \<^verbatim>\<open>await\<close> of
  the sequence.
\<close>

definition start_enter :: "unit prog" where
  "start_enter = (\<lambda>b.
     case lifeTimer b of
       Some _ \<Rightarrow> (Throw (Error ''start() lifeTimer exist''),
                  b\<lparr>readyState := switch_set_off False (readyState b)\<rparr>)
     | None \<Rightarrow> (Return (), b\<lparr>readyState := switch_set_off False (readyState b),
                             state := switch_set_on True (state b)\<rparr>))"

definition start_run :: "env \<Rightarrow> unit prog" where
  "start_run env =
     bnd (try_catch (start_try env) (start_catch env)) (\<lambda>completed.
     if \<not> completed then ret ()
     else bnd (on ''heartbeat'' MemoryCheck) (\<lambda>_ b.
          bnd (emit env EvStart) (\<lambda>_. ret ())
            (b\<lparr>lifeTimer := Some (1000 * 60 * 60), state := switch_set_on False (state b)\<rparr>)))"

definition start :: "env \<Rightarrow> unit prog" where
  "start env = (\<lambda>b.
     if switch_on (state b) \<noteq> SFalse then state_ready StateOn b
     else bnd start_enter (\<lambda>_. start_run env) b)"

definition logonoff :: "env \<Rightarrow> bool prog" where
  "logonoff env = try_catch (on_puppet PLogonoff (puppet_logonoff env)) (\<lambda>e. ret False)"

section \<open>Predicates used in the statements\<close>

text \<open>
  The listeners of a bot are calm when none of them throws and \<^verbatim>\<open>'error'\<close> has a
  listener, so that no \<^verbatim>\<open>emit\<close> of the code raises. The closure registered by
  \<^verbatim>\<open>start\<close> may be present on \<^verbatim>\<open>'heartbeat'\<close>.
\<close>

definition calm :: "Wechaty \<Rightarrow> bool" where
  "calm b =
     (list_all (\<lambda>nl. snd nl = Returns \<or> (snd nl = MemoryCheck \<and> fst nl = ''heartbeat'')) (listeners b)
      \<and> listeners_of b ''error'' \<noteq> [])"

text \<open>A program keeps a property of the bot and is never suspended.\<close>

definition keeps :: "(Wechaty \<Rightarrow> bool) \<Rightarrow> 'a prog \<Rightarrow> bool" where
  "keeps I m = (\<forall>b. I b \<longrightarrow> I (snd (m b)) \<and> (\<forall>t. fst (m b) \<noteq> Await t))"

text \<open>The actions that a run from bot \<open>b\<close> to bot \<open>b'\<close> has added to the trace.\<close>

definition added :: "Wechaty \<Rightarrow> Wechaty \<Rightarrow> action list" where
  "added b b' = drop (length (trace b)) (trace b')"

text \<open>
  The events by which a failure of \<^verbatim>\<open>start\<close> shows (\<^verbatim>\<open>'error'\<close> and \<^verbatim>\<open>'stop'\<close>), and
  the emissions among the actions.
\<close>

fun failure_event :: "action \<Rightarrow> bool" where
  "failure_event (Emit (EvError _)) = True"
| "failure_event (Emit EvStop) = True"
| "failure_event _ = False"

fun emission :: "action \<Rightarrow> bool" where
  "emission (Emit _) = True"
| "emission (EntityEmit _ _) = True"
| "emission _ = False"

text \<open>The exception of the first listener that throws, if one does.\<close>

fun first_throw :: "listener list \<Rightarrow> error option" where
  "first_throw [] = None"
| "first_throw (Throws e # ls) = Some e"
| "first_throw (_ # ls) = first_throw ls"

text \<open>
  Since the trace \<open>t0\<close> the bot has kept its state switch and calm listeners, and what
  has been added to the trace holds no \<^verbatim>\<open>'error'\<close> and no \<^verbatim>\<open>'stop'\<close> event.
\<close>

definition steady :: "StateSwitch \<Rightarrow> action list \<Rightarrow> Wechaty \<Rightarrow> bool" where
  "steady s t0 b =
     (calm b \<and> state b = s \<and> (\<exists>t. trace b = t0 @ t \<and> list_all (\<lambda>a. \<not> failure_event a) t))"

text \<open>
  The exception that the start sequence raises, if any. The steps that can fail are,
  in this order: the resolution of the puppet and the wiring of the bridge (both only
  when the bot has no puppet yet), \<^verbatim>\<open>puppet.start()\<close>, and \<^verbatim>\<open>io.start()\<close> (only when
  the options hold an io token). A rejection of \<^verbatim>\<open>memory.load()\<close> is not among them:
  the source catches it on the spot.
\<close>

fun bridge_error :: "string list \<Rightarrow> error option" where
  "bridge_error [] = None"
| "bridge_error (eventName # rest) =
     (if eventName \<in> set bridged \<or> eventName = ''reset'' then bridge_error rest
      else Some (Error (''eventName '' @ eventName @ '' unsupported!'')))"

definition start_failure :: "env \<Rightarrow> Wechaty \<Rightarrow> error option" where
  "start_failure env b = first_error
     [if puppet b \<noteq> None then None
      else (case PuppetManager_resolve env of
              Inl e \<Rightarrow> Some e
            | Inr p \<Rightarrow> bridge_error (PUPPET_EVENT_DICT_keys env)),
      puppet_start env,
      if falsy (opt_ioToken (options b)) then None else io_start env]"

text \<open>
  The first hydration that fails in the listener of an event, in the order in which
  the listener awaits them; \<open>None\<close> when all succeed or the listener performs none.
  A \<^verbatim>\<open>sync()\<close> fails when one of its three calls does.
\<close>

definition room_sync_failure :: "env \<Rightarrow> Wechaty \<Rightarrow> string \<Rightarrow> error option" where
  "room_sync_failure env b roomId =
     (case puppet b of
        None \<Rightarrow> Some (TypeError ''Cannot read properties of undefined'')
      | Some _ \<Rightarrow>
          first_error [puppet_roomPayloadDirty env roomId, puppet_roomMemberPayloadDirty env roomId,
            entity_sync env (Entity Room roomId)])"

fun hydration_failure :: "env \<Rightarrow> Wechaty \<Rightarrow> puppet_event \<Rightarrow> error option" where
  "hydration_failure env b (PuppetFriendship friendshipId) =
     entity_ready env (Entity Friendship friendshipId)"
| "hydration_failure env b (PuppetLogin contactId) = entity_ready env (Entity ContactSelf contactId)"
| "hydration_failure env b (PuppetLogout contactId data) = entity_ready env (Entity ContactSelf contactId)"
| "hydration_failure env b (PuppetMessage messageId) = entity_ready env (Entity Message messageId)"
| "hydration_failure env b (PuppetRoomJoin roomId inviteeIdList inviterId timestamp) =
     first_error
       [room_sync_failure env b roomId,
        map_option snd (earliest_rejection env (map (Entity Contact) inviteeIdList)),
        entity_ready env (Entity Contact inviterId)]"
| "hydration_failure env b (PuppetRoomLeave roomId removeeIdList removerId timestamp) =
     first_error
       [room_sync_failure env b roomId,
        map_option snd (earliest_rejection env (map (Entity Contact) removeeIdList)),
        entity_ready env (Entity Contact removerId)]"
| "hydration_failure env b (PuppetRoomTopic roomId newTopic oldTopic changerId timestamp) =
     first_error [room_sync_failure env b roomId, entity_ready env (Entity Contact changerId)]"
| "hydration_failure env b _ = None"

section \<open>Concrete runs\<close>

text \<open>
  An environment in which every call of the start sequence and every hydration
  succeeds, and variants of it in which \<^verbatim>\<open>puppet.start()\<close> rejects, in which
  \<^verbatim>\<open>memory.load()\<close> rejects, in which every \<^verbatim>\<open>ready()\<close> rejects, in which the
  \<^verbatim>\<open>ready()\<close> of two contacts reject, that of the second one first, and in which
  \<^verbatim>\<open>roomPayloadDirty\<close> rejects.
\<close>

definition example_env :: env where
  "example_env = \<lparr>cuid = ''ck0'', systemPuppetName = ''wechaty-puppet-mock'',
     PUPPET_EVENT_DICT_keys = bridged @ [''reset''], freemem = 1073741824,
     memory_load = None,
     PuppetManager_resolve = Inr \<lparr>puppet_name = ''wechaty-puppet-mock'', puppet_memory = None, puppet_handlers = []\<rparr>,
     puppet_start = None, puppet_stop = None, io_start = None, io_stop = None,
     puppet_logonoff = Inr True, puppet_selfId = Inr ''self'',
     puppet_roomPayloadDirty = (\<lambda>_. None), puppet_roomMemberPayloadDirty = (\<lambda>_. None),
     puppet_momentPost = (\<lambda>_. Inr (Some ''moment-1'')),
     entity_ready = (\<lambda>_. None), entity_sync = (\<lambda>_. None), entity_emit = (\<lambda>_ _. None),
     settles_at = (\<lambda>_. 0),
     instanceToClass_load = Some (TypeError ''instanceToClass(...).load is not a function''),
     message_room = (\<lambda>_. Inr (Some ''room-1'')), friendship_contact = (\<lambda>_. Inr ''contact-1''),
     timestampToDate = (\<lambda>t. t * 1000)\<rparr>"

definition failing_env :: env where
  "failing_env = example_env\<lparr>puppet_start := Some (Error ''puppet start failed'')\<rparr>"

definition memory_failing_env :: env where
  "memory_failing_env = example_env\<lparr>memory_load := Some (Error ''memory load failed'')\<rparr>"

definition ready_failing_env :: env where
  "ready_failing_env = example_env\<lparr>entity_ready := (\<lambda>_. Some (Error ''payload fetch failed''))\<rparr>"

definition racing_env :: env where
  "racing_env = example_env
     \<lparr>entity_ready := (\<lambda>x. if x = Entity Contact ''c1'' then Some (Error ''c1 failed'')
                            else if x = Entity Contact ''c2'' then Some (Error ''c2 failed'')
                            else None),
      settles_at := (\<lambda>x. if x = Entity Contact ''c1'' then 2 else 1)\<rparr>"


text \<open>
  The bot as the constructor leaves it, without any listener; the same bot once the
  application has registered a listener of \<^verbatim>\<open>'error'\<close>; that bot once \<^verbatim>\<open>start\<close> has
  resolved; and the started bot with one more listener of the application: of
  \<^verbatim>\<open>'message'\<close>, returning or throwing, or of \<^verbatim>\<open>'room-leave'\<close>.
\<close>

definition bare_bot :: Wechaty where
  "bare_bot = snd (new_Wechaty example_env None [])"

definition example_bot :: Wechaty where
  "example_bot = snd (on ''error'' Returns (snd (new_Wechaty example_env None [])))"

definition started_bot :: Wechaty where
  "started_bot = snd (start example_env example_bot)"

definition listening_bot :: Wechaty where
  "listening_bot = snd (on ''message'' Returns started_bot)"

definition throwing_bot :: Wechaty where
  "throwing_bot = snd (on ''message'' (Throws (Error ''listener failed'')) started_bot)"


text \<open>A post without any item, and the structure without any populated field.\<close>

definition empty_post :: PostInterface where
  "empty_post = \<lparr>payload = \<lparr>sayableList = []\<rparr>\<rparr>"

definition empty_moment :: Moment where
  "empty_moment = \<lparr>textMaterial = None, imageMaterialList = [], videoMaterial = None, urlMaterial = None\<rparr>"

text \<open>The results of successive calls of \<^verbatim>\<open>Wechaty.instance\<close>, one per argument.\<close>

fun instance_calls :: "env \<Rightarrow> WechatyOptions option list \<Rightarrow> statics \<Rightarrow> (error + nat) list" where
  "instance_calls env [] st = []"
| "instance_calls env (opts # later) st =
     (case instance env opts st of (r, st') \<Rightarrow> r # instance_calls env later st')"

definition example_statics :: statics where
  "example_statics = \<lparr>globalInstance = None, globalPluginList = [], objects = []\<rparr>"

text \<open>The names of the plugins invoked, in the order of the trace.\<close>

fun invoked :: "action list \<Rightarrow> string list" where
  "invoked [] = []"
| "invoked (PluginInvoke n # rest) = n # invoked rest"
| "invoked (_ # rest) = invoked rest"

text \<open>
  A plugin that returns (it does not throw) and leaves the record of invocations
  alone: it does not itself call \<^verbatim>\<open>use\<close>.
\<close>

definition returns_plainly :: "WechatyPlugin \<Rightarrow> bool" where
  "returns_plainly p =
     (\<forall>b. (\<exists>u. fst (plugin_body p b) = Inr u)
          \<and> invoked (trace (snd (plugin_body p b))) = invoked (trace b))"

text \<open>The same plugin, returning nothing where it returned an uninstaller.\<close>

definition forget :: "WechatyPlugin \<Rightarrow> WechatyPlugin" where
  "forget p = p\<lparr>plugin_body := (\<lambda>b. case plugin_body p b of
      (Inr u, b') \<Rightarrow> (Inr None, b')
    | (Inl e, b') \<Rightarrow> (Inl e, b'))\<rparr>"

definition plugin_with_uninstaller :: WechatyPlugin where
  "plugin_with_uninstaller =
     \<lparr>plugin_name = ''report'',
      plugin_body = (\<lambda>b. (Inr (Some (\<lambda>b'. b'\<lparr>listeners := []\<rparr>)),
                          b\<lparr>listeners := listeners b @ [(''message'', Returns)]\<rparr>))\<rparr>"

definition plugin_plain :: WechatyPlugin where
  "plugin_plain =
     \<lparr>plugin_name = ''report'',
      plugin_body = (\<lambda>b. (Inr None, b\<lparr>listeners := listeners b @ [(''message'', Returns)]\<rparr>))\<rparr>"

section \<open>Moment conversion\<close>

lemma last_seen_snoc: "last_seen (xs @ [x]) = Some x"
  by (simp add: last_seen_def)

lemma generateMomentPayload_loop_buckets:
  "generateMomentPayload_loop xs m =
     (if list_all is_material xs
      then Inr \<lparr>textMaterial = (case last_seen (texts xs) of None \<Rightarrow> textMaterial m | Some t \<Rightarrow> Some t),
                imageMaterialList = imageMaterialList m @ images xs,
                videoMaterial = (case last_seen (videos xs) of None \<Rightarrow> videoMaterial m | Some v \<Rightarrow> Some v),
                urlMaterial = (case last_seen (urls xs) of None \<Rightarrow> urlMaterial m | Some u \<Rightarrow> Some u)\<rparr>
      else Inl (Error ''Can not convert sayable to moment material when create moment payload''))"
proof (induction xs m rule: generateMomentPayload_loop.induct)
  case (1 m)
  show ?case by (simp add: last_seen_def)
next
  case (2 p rest m)
  then show ?case by (simp add: last_seen_def)
next
  case (3 p rest m)
  then show ?case by (simp add: last_seen_def)
next
  case (4 p rest m)
  then show ?case by (simp add: last_seen_def)
next
  case (5 p rest m)
  then show ?case by (simp add: last_seen_def)
next
  case (6 k rest m)
  show ?case by simp
qed

text \<open>
  C7. \<^verbatim>\<open>generateMomentPayload\<close> computes exactly the buckets of the specification: the
  text, the video and the url-link are each the last item of their kind in the list (or
  absent), the images are all the image items in the order of the list, and the result
  is the validation error as soon as the list holds an item of any other kind.
\<close>

theorem generateMomentPayload_buckets:
  "generateMomentPayload p = moment_buckets (sayableList (payload p))"
  by (simp add: generateMomentPayload_def moment_buckets_def generateMomentPayload_loop_buckets
      split: option.splits)

section \<open>Sequencing and listeners\<close>

lemma bnd_simps [simp]:
  "bnd (ret x) f = f x"
  "bnd (throw e) f = throw e"
  by (simp_all add: bnd_def ret_def throw_def)

lemma bnd_apply:
  "bnd m f b = (case m b of (Return x, b') \<Rightarrow> f x b' | (Throw e, b') \<Rightarrow> (Throw e, b') | (Await t, b') \<Rightarrow> (Await t, b'))"
  by (simp add: bnd_def)

lemma invoke_with_Returns:
  "list_all (\<lambda>l. l = Returns) ls \<Longrightarrow> invoke_with mc ls = ret ()"
  by (induction ls) auto

lemma listeners_of_calm:
  "calm b \<Longrightarrow> n \<noteq> ''heartbeat'' \<Longrightarrow> list_all (\<lambda>l. l = Returns) (listeners_of b n)"
  by (auto simp: calm_def listeners_of_def list_all_iff)

lemma emit_calm:
  assumes "calm b" "event_name ev \<noteq> ''heartbeat''"
  shows "emit env ev b = (Return (listeners_of b (event_name ev) \<noteq> []), b\<lparr>trace := trace b @ [Emit ev]\<rparr>)"
proof -
  let ?b = "b\<lparr>trace := trace b @ [Emit ev]\<rparr>"
  have l: "listeners_of ?b (event_name ev) = listeners_of b (event_name ev)"
    by (simp add: listeners_of_def)
  have inv: "invoke_with (memoryCheck env) (listeners_of b (event_name ev)) = ret ()"
    using assms by (intro invoke_with_Returns listeners_of_calm)
  show ?thesis
  proof (cases "listeners_of b (event_name ev) = []")
    case True
    with assms have "\<forall>e. ev \<noteq> EvError e" by (auto simp: calm_def)
    with True l show ?thesis
      by (cases ev) (simp_all add: emit_def emit_with_def bnd_apply log_def Let_def)
  next
    case False
    with l inv show ?thesis
      by (simp add: emit_def emit_with_def bnd_apply log_def Let_def ret_def)
  qed
qed

lemma calm_frame [simp]:
  "calm (b\<lparr>trace := t\<rparr>) = calm b"
  "calm (b\<lparr>state := s\<rparr>) = calm b"
  "calm (b\<lparr>readyState := s\<rparr>) = calm b"
  "calm (b\<lparr>lifeTimer := lt\<rparr>) = calm b"
  "calm (b\<lparr>io := i\<rparr>) = calm b"
  "calm (b\<lparr>puppet := p\<rparr>) = calm b"
  "calm (b\<lparr>memory := m\<rparr>) = calm b"
  "calm (b\<lparr>class_puppet := cp\<rparr>) = calm b"
  by (simp_all add: calm_def listeners_of_def)

lemma listeners_of_frame [simp]:
  "listeners_of (b\<lparr>trace := t\<rparr>) = listeners_of b"
  "listeners_of (b\<lparr>state := s\<rparr>) = listeners_of b"
  "listeners_of (b\<lparr>readyState := s\<rparr>) = listeners_of b"
  "listeners_of (b\<lparr>lifeTimer := lt\<rparr>) = listeners_of b"
  "listeners_of (b\<lparr>io := i\<rparr>) = listeners_of b"
  "listeners_of (b\<lparr>puppet := p\<rparr>) = listeners_of b"
  "listeners_of (b\<lparr>memory := m\<rparr>) = listeners_of b"
  "listeners_of (b\<lparr>class_puppet := cp\<rparr>) = listeners_of b"
  by (simp_all add: listeners_of_def fun_eq_iff)

lemmas prog_defs = bnd_apply try_catch_def ret_def throw_def log_def call_def call_value_def
  on_puppet_def unit_outcome_def

lemma keepsD:
  "keeps I m \<Longrightarrow> I b \<Longrightarrow> I (snd (m b))"
  "keeps I m \<Longrightarrow> I b \<Longrightarrow> fst (m b) \<noteq> Await t"
  by (simp_all add: keeps_def)

lemma keeps_ret: "keeps I (ret x)"
  by (simp add: keeps_def ret_def)

lemma keeps_throw: "keeps I (throw e)"
  by (simp add: keeps_def throw_def)

lemma keeps_bnd:
  assumes "keeps I m" "\<And>x. keeps I (f x)"
  shows "keeps I (bnd m f)"
  unfolding keeps_def
proof (intro allI impI)
  fix b assume b: "I b"
  obtain r b1 where m: "m b = (r, b1)" by (cases "m b")
  from keepsD[OF assms(1) b] m have b1: "I b1" and r: "\<And>t. r \<noteq> Await t" by auto
  show "I (snd (bnd m f b)) \<and> (\<forall>t. fst (bnd m f b) \<noteq> Await t)"
  proof (cases r)
    case (Return x)
    with m have "bnd m f b = f x b1" by (simp add: bnd_apply)
    with keepsD[OF assms(2) b1] show ?thesis by auto
  next
    case (Throw e)
    with m b1 show ?thesis by (simp add: bnd_apply)
  next
    case (Await t)
    with r[of t] show ?thesis by simp
  qed
qed

lemma keeps_try_catch:
  assumes "keeps I m" "\<And>e. keeps I (h e)"
  shows "keeps I (try_catch m h)"
  unfolding keeps_def
proof (intro allI impI)
  fix b assume b: "I b"
  obtain r b1 where m: "m b = (r, b1)" by (cases "m b")
  from keepsD[OF assms(1) b] m have b1: "I b1" and r: "\<And>t. r \<noteq> Await t" by auto
  show "I (snd (try_catch m h b)) \<and> (\<forall>t. fst (try_catch m h b) \<noteq> Await t)"
  proof (cases r)
    case (Return x)
    with m b1 show ?thesis by (simp add: try_catch_def)
  next
    case (Throw e)
    with m have "try_catch m h b = h e b1" by (simp add: try_catch_def)
    with keepsD[OF assms(2) b1] show ?thesis by auto
  next
    case (Await t)
    with r[of t] show ?thesis by simp
  qed
qed

section \<open>\<^verbatim>\<open>start\<close>\<close>

lemma example_bot_eq:
  "example_bot = \<lparr>state = new_StateSwitch, readyState = new_StateSwitch, memory = None,
            lifeTimer = None, io = None, puppet = None, wechaty_id = ''ck0'', options = empty_options,
            class_puppet = [], listeners = [(''error'', Returns)], trace = []\<rparr>"
  by (simp add: example_bot_def new_Wechaty_def installGlobalPlugin_def on_def example_env_def
      empty_options_def falsy_def)

lemma calm_on_heartbeat: "calm b \<Longrightarrow> calm (b\<lparr>listeners := listeners b @ [(''heartbeat'', MemoryCheck)]\<rparr>)"
  by (simp add: calm_def listeners_of_def)

lemma start_unfold:
  "switch_on (state b) = SFalse \<Longrightarrow> lifeTimer b = None \<Longrightarrow>
   start env b = start_run env (snd (start_enter b))"
  by (simp add: start_def start_enter_def bnd_apply)

lemmas run_defs = start_def start_enter_def start_run_def start_try_def start_catch_def stop_def
  initPuppet_def initPuppetAccessory_def bridged_def emit_def emit_with_def memoryCheck_def
  listeners_of_def on_def state_ready_def resolved_def switch_on_def switch_off_def
  switch_set_on_def switch_set_off_def new_StateSwitch_def empty_options_def falsy_def
  bnd_apply try_catch_def ret_def throw_def log_def call_def call_value_def on_puppet_def
  unit_outcome_def Let_def

lemma example_bot_hyps:
  "switch_on (state example_bot) = SFalse" "lifeTimer example_bot = None" "calm example_bot"
  by (simp_all add: example_bot_eq switch_on_def new_StateSwitch_def calm_def listeners_of_def)

lemma start_guard:
  assumes "switch_on (state b) \<noteq> SFalse"
  shows "start env b = (if onResolved (state b) then Return () else Await StateOn, b)"
  using assms by (simp add: start_def state_ready_def resolved_def)

lemma resume_guard:
  assumes "switch_on (state b) \<noteq> SFalse" "onResolved (state b')"
  shows "resume (fst (start env b)) b' = Return ()"
  using assms by (simp add: start_guard resume_def resolved_def)

section \<open>\<^verbatim>\<open>Moment.post\<close> and \<^verbatim>\<open>logonoff\<close>\<close>

lemma started_bot_eq:
  "started_bot = \<lparr>state = \<lparr>onoff = True, pending = False, onResolved = True, offResolved = False\<rparr>,
     readyState = \<lparr>onoff = False, pending = False, onResolved = False, offResolved = True\<rparr>,
     memory = Some (MemoryCard None), lifeTimer = Some 3600000, io = None,
     puppet = Some \<lparr>puppet_name = ''wechaty-puppet-mock'',
        puppet_memory = Some (Multiplex (MemoryCard None) ''puppet''), puppet_handlers = bridged\<rparr>,
     wechaty_id = ''ck0'', options = empty_options,
     class_puppet = map (\<lambda>c. (c, \<lparr>puppet_name = ''wechaty-puppet-mock'',
        puppet_memory = Some (Multiplex (MemoryCard None) ''puppet''), puppet_handlers = bridged\<rparr>))
        [Contact, ContactSelf, Friendship, Image, Message, Room, RoomInvitation, Tag],
     listeners = [(''error'', Returns), (''heartbeat'', MemoryCheck)],
     trace = [MemoryLoad, PuppetResolve ''wechaty-puppet-mock'',
        Emit (EvPuppet \<lparr>puppet_name = ''wechaty-puppet-mock'',
        puppet_memory = Some (Multiplex (MemoryCard None) ''puppet''), puppet_handlers = bridged\<rparr>),
        PuppetCall PStart, Emit EvStart]\<rparr>"
  by (simp add: started_bot_def example_bot_eq example_env_def run_defs)

text \<open>
  C10. \<^verbatim>\<open>logonoff\<close> always returns a boolean: what \<^verbatim>\<open>puppet.logonoff()\<close> returns, and
  \<^verbatim>\<open>false\<close> when that call throws or when there is no puppet yet, so that the call on
  \<^verbatim>\<open>undefined\<close> raises.
\<close>

theorem logonoff_total:
  "fst (logonoff env b) =
     Return (case puppet b of
               None \<Rightarrow> False
             | Some _ \<Rightarrow> (case puppet_logonoff env of Inl e \<Rightarrow> False | Inr v \<Rightarrow> v))"
  by (simp add: logonoff_def prog_defs split: option.splits sum.splits)

section \<open>\<^verbatim>\<open>Wechaty.instance\<close>\<close>

lemma instance_existing:
  "globalInstance st = Some r \<Longrightarrow> instance env None st = (Inr r, st)"
  "globalInstance st = Some r \<Longrightarrow>
     instance env (Some x) st = (Inl (Error ''instance can be only initialized once by options!''), st)"
  by (simp_all add: instance_def)

lemma instance_calls_existing:
  "globalInstance st = Some r \<Longrightarrow>
   instance_calls env later st =
     map (\<lambda>opts. case opts of
            None \<Rightarrow> Inr r
          | Some _ \<Rightarrow> Inl (Error ''instance can be only initialized once by options!'')) later"
  by (induction later) (auto simp: instance_existing split: option.splits)

text \<open>
  C9. When there is no global instance and the constructor returns, the first call
  of \<^verbatim>\<open>instance\<close> creates the object from its options, stores it and returns its
  reference; of the calls that follow, each one without options returns that same
  reference and each one with options throws. A call on a class that has a global
  instance never changes the static members.
\<close>

theorem instance_singleton:
  "(globalInstance st = None \<and> fst (new_Wechaty env opts (globalPluginList st)) = Inr () \<longrightarrow>
      instance env opts st =
        (Inr (length (objects st)),
         st\<lparr>objects := objects st @ [snd (new_Wechaty env opts (globalPluginList st))],
            globalInstance := Some (length (objects st))\<rparr>)
      \<and> instance_calls env (opts # later) st =
          Inr (length (objects st)) #
          map (\<lambda>opts. case opts of
                 None \<Rightarrow> Inr (length (objects st))
               | Some _ \<Rightarrow> Inl (Error ''instance can be only initialized once by options!'')) later)
   \<and> (globalInstance st \<noteq> None \<longrightarrow> snd (instance env opts st) = st)"
proof (intro conjI impI)
  assume h: "globalInstance st = None \<and> fst (new_Wechaty env opts (globalPluginList st)) = Inr ()"
  let ?st = "st\<lparr>objects := objects st @ [snd (new_Wechaty env opts (globalPluginList st))],
            globalInstance := Some (length (objects st))\<rparr>"
  from h obtain w where w: "new_Wechaty env opts (globalPluginList st) = (Inr (), w)"
    by (cases "new_Wechaty env opts (globalPluginList st)") auto
  with h show first: "instance env opts st = (Inr (length (objects st)), ?st)"
    by (simp add: instance_def)
  have "globalInstance ?st = Some (length (objects st))" by simp
  from instance_calls_existing[OF this, of env later] first
  show "instance_calls env (opts # later) st =
          Inr (length (objects st)) #
          map (\<lambda>opts. case opts of
                 None \<Rightarrow> Inr (length (objects st))
               | Some _ \<Rightarrow> Inl (Error ''instance can be only initialized once by options!'')) later"
    by simp
next
  assume "globalInstance st \<noteq> None"
  then show "snd (instance env opts st) = st"
    by (cases opts) (auto simp: instance_def)
qed

theorem instance_singleton_witness:
  "globalInstance example_statics = None
   \<and> fst (new_Wechaty example_env None (globalPluginList example_statics)) = Inr ()
   \<and> instance_calls example_env [None, None, Some empty_options, None] example_statics =
       [Inr 0, Inr 0, Inl (Error ''instance can be only initialized once by options!''), Inr 0]
   \<and> globalInstance (snd (instance example_env None example_statics)) \<noteq> None
   \<and> snd (instance example_env (Some empty_options) (snd (instance example_env None example_statics)))
       = snd (instance example_env None example_statics)"
proof -
  have h: "globalInstance example_statics = None"
    "fst (new_Wechaty example_env None (globalPluginList example_statics)) = Inr ()"
    by (simp_all add: example_statics_def new_Wechaty_def installGlobalPlugin_def)
  have len: "length (objects example_statics) = 0" by (simp add: example_statics_def)
  from instance_singleton[of example_statics example_env None "[None, Some empty_options, None]"] h
  have "instance_calls example_env (None # [None, Some empty_options, None]) example_statics =
          Inr (length (objects example_statics)) #
          map (\<lambda>opts. case opts of
                 None \<Rightarrow> Inr (length (objects example_statics))
               | Some _ \<Rightarrow> Inl (Error ''instance can be only initialized once by options!''))
            [None, Some empty_options, None]"
    and i: "instance example_env None example_statics =
        (Inr (length (objects example_statics)),
         example_statics\<lparr>objects := objects example_statics
              @ [snd (new_Wechaty example_env None (globalPluginList example_statics))],
            globalInstance := Some (length (objects example_statics))\<rparr>)"
    by blast+
  then have a: "instance_calls example_env [None, None, Some empty_options, None] example_statics =
       [Inr 0, Inr 0, Inl (Error ''instance can be only initialized once by options!''), Inr 0]"
    by (simp add: len del: instance_calls.simps)
  from i have b: "globalInstance (snd (instance example_env None example_statics)) \<noteq> None"
    by simp
  from instance_singleton[of "snd (instance example_env None example_statics)" example_env
      "Some empty_options" "[]"] b
  have "snd (instance example_env (Some empty_options) (snd (instance example_env None example_statics)))
       = snd (instance example_env None example_statics)"
    by blast
  with h a b show ?thesis by blast
qed

section \<open>\<^verbatim>\<open>use\<close>\<close>

lemma invoked_append: "invoked (xs @ ys) = invoked xs @ invoked ys"
  by (induction xs rule: invoked.induct) auto

lemma forEach_plugin_invoked:
  assumes "list_all returns_plainly ps"
  shows "fst (forEach_plugin ps b) = Inr ()
         \<and> invoked (trace (snd (forEach_plugin ps b))) = invoked (trace b) @ map plugin_name ps"
  using assms
proof (induction ps arbitrary: b)
  case Nil
  show ?case by simp
next
  case (Cons p ps)
  let ?b = "b\<lparr>trace := trace b @ [PluginInvoke (plugin_name p)]\<rparr>"
  from Cons.prems have p: "returns_plainly p" and ps: "list_all returns_plainly ps" by simp_all
  from p obtain u b1 where r: "plugin_body p ?b = (Inr u, b1)"
    unfolding returns_plainly_def by (metis prod.collapse)
  from p have "invoked (trace (snd (plugin_body p ?b))) = invoked (trace ?b)"
    unfolding returns_plainly_def by blast
  with r have t: "invoked (trace b1) = invoked (trace b) @ [plugin_name p]"
    by (simp add: invoked_append)
  from Cons.IH[OF ps, of b1] r t show ?case
    by (simp add: apply_plugin_def)
qed

lemma forEach_plugin_forget: "forEach_plugin (map forget ps) b = forEach_plugin ps b"
proof (induction ps arbitrary: b)
  case Nil
  show ?case by simp
next
  case (Cons p ps)
  then show ?case
    by (cases "plugin_body p (b\<lparr>trace := trace b @ [PluginInvoke (plugin_name p)]\<rparr>)")
       (auto simp: apply_plugin_def forget_def split: sum.splits)
qed

text \<open>
  C8 (as amended). \<^verbatim>\<open>use\<close> invokes the plugins one after the other in the order
  supplied, each with the bot: when the plugins return plainly, \<^verbatim>\<open>use\<close> returns and
  the invocations it has added to the trace are the plugins' names in that order.
  What a plugin returns is dropped: the outcome and the bot are the same when every
  plugin returns nothing in place of its uninstaller.
\<close>

theorem use_invokes_in_order:
  "(list_all returns_plainly (flat plugins) \<longrightarrow>
      fst (use plugins b) = Inr ()
      \<and> invoked (trace (snd (use plugins b))) = invoked (trace b) @ map plugin_name (flat plugins))
   \<and> forEach_plugin (map forget (flat plugins)) b = use plugins b"
  by (simp add: use_def forEach_plugin_invoked forEach_plugin_forget)

lemma returns_plainly_example:
  "returns_plainly plugin_with_uninstaller" "returns_plainly plugin_plain"
  by (simp_all add: returns_plainly_def plugin_with_uninstaller_def plugin_plain_def)

theorem use_invokes_in_order_witness:
  "list_all returns_plainly (flat [One plugin_plain, Many [plugin_with_uninstaller, plugin_plain]])
   \<and> fst (use [One plugin_plain, Many [plugin_with_uninstaller, plugin_plain]] example_bot) = Inr ()
   \<and> invoked (trace (snd (use [One plugin_plain, Many [plugin_with_uninstaller, plugin_plain]] example_bot)))
       = [''report'', ''report'', ''report'']
   \<and> forEach_plugin (map forget [plugin_plain, plugin_with_uninstaller, plugin_plain]) example_bot
       = use [One plugin_plain, Many [plugin_with_uninstaller, plugin_plain]] example_bot"
proof -
  have h: "list_all returns_plainly (flat [One plugin_plain, Many [plugin_with_uninstaller, plugin_plain]])"
    by (simp add: returns_plainly_example)
  have n: "plugin_name plugin_plain = ''report''" "plugin_name plugin_with_uninstaller = ''report''"
    by (simp_all add: plugin_plain_def plugin_with_uninstaller_def)
  from use_invokes_in_order[of "[One plugin_plain, Many [plugin_with_uninstaller, plugin_plain]]" example_bot] h
  show ?thesis by (simp add: n example_bot_eq)
qed

text \<open>
  C8 as stated fails: a plugin that returns an uninstaller and a plugin that does the
  same to the bot and returns nothing leave \<^verbatim>\<open>use\<close> with the same outcome and the
  same bot, so the bot holds no record of the uninstaller.
\<close>

theorem use_drops_uninstaller_counterexample:
  "(\<exists>u. fst (plugin_body plugin_with_uninstaller example_bot) = Inr (Some u))
   \<and> fst (plugin_body plugin_plain example_bot) = Inr None
   \<and> use [One plugin_with_uninstaller] example_bot = use [One plugin_plain] example_bot"
  by (simp add: use_def apply_plugin_def plugin_with_uninstaller_def plugin_plain_def)

section \<open>The listeners of the bridge\<close>

lemma bnd_load: "bnd (load c i) f b = f (Entity c i) (b\<lparr>trace := trace b @ [LoadCall (Entity c i)]\<rparr>)"
  by (simp add: load_def bnd_apply log_def ret_def)

lemma bnd_ready:
  "bnd (ready env x) f b =
     (case entity_ready env x of
        None \<Rightarrow> f () (b\<lparr>trace := trace b @ [ReadyCall x]\<rparr>)
      | Some e \<Rightarrow> (Throw e, b\<lparr>trace := trace b @ [ReadyCall x]\<rparr>))"
  by (simp add: ready_def call_def bnd_apply log_def ret_def throw_def split: option.splits)

lemma bnd_assoc: "bnd (bnd m g) f = bnd m (\<lambda>x. bnd (g x) f)"
  by (auto simp: bnd_def fun_eq_iff split: prod.splits result.splits)

lemma bnd_load_all:
  "bnd (load_all c is) f b =
     f (map (Entity c) is) (b\<lparr>trace := trace b @ map (\<lambda>i. LoadCall (Entity c i)) is\<rparr>)"
proof (induction "is" arbitrary: b f)
  case Nil
  show ?case by simp
next
  case (Cons i "is")
  have "bnd (load_all c (i # is)) f b =
      bnd (load c i) (\<lambda>x. bnd (load_all c is) (\<lambda>xs. bnd (ret (x # xs)) f)) b"
    by (simp only: load_all.simps bnd_assoc)
  also have "\<dots> = bnd (load_all c is) (\<lambda>xs. bnd (ret (Entity c i # xs)) f)
      (b\<lparr>trace := trace b @ [LoadCall (Entity c i)]\<rparr>)"
    by (simp only: bnd_load)
  also have "\<dots> = f (map (Entity c) (i # is))
      (b\<lparr>trace := trace b @ map (\<lambda>i. LoadCall (Entity c i)) (i # is)\<rparr>)"
    by (simp add: Cons.IH)
  finally show ?case .
qed

lemma bnd_room_of:
  "bnd (room_of env (Entity c i)) f b =
     (case message_room env i of
        Inl e \<Rightarrow> (Throw e, b)
      | Inr None \<Rightarrow> f None b
      | Inr (Some r) \<Rightarrow> f (Some (Entity Room r)) b)"
  by (simp add: room_of_def throw_def ret_def bnd_apply split: sum.splits option.splits)

lemma bnd_contact_of:
  "bnd (contact_of env (Entity c i)) f b =
     (case friendship_contact env i of
        Inl e \<Rightarrow> (Throw e, b)
      | Inr x \<Rightarrow> f (Entity Contact x) b)"
  by (simp add: contact_of_def throw_def ret_def bnd_apply split: sum.splits)

lemma first_error_append:
  "first_error (xs @ ys) = (case first_error xs of None \<Rightarrow> first_error ys | Some e \<Rightarrow> Some e)"
  by (induction xs rule: first_error.induct) auto

lemma emit_returns:
  assumes "list_all (\<lambda>l. l = Returns) (listeners_of b (event_name ev))" "event_name ev \<noteq> ''error''"
  shows "emit env ev b =
    (Return (listeners_of b (event_name ev) \<noteq> []), b\<lparr>trace := trace b @ [Emit ev]\<rparr>)"
proof -
  have inv: "invoke_with (memoryCheck env) (listeners_of b (event_name ev)) = ret ()"
    using assms(1) by (rule invoke_with_Returns)
  let ?b = "b\<lparr>trace := trace b @ [Emit ev]\<rparr>"
  have l: "listeners_of ?b (event_name ev) = listeners_of b (event_name ev)"
    by simp
  show ?thesis
  proof (cases "listeners_of b (event_name ev) = []")
    case True
    from assms(2) have "\<forall>e. ev \<noteq> EvError e" by auto
    with True l show ?thesis
      by (cases ev) (simp_all add: emit_def emit_with_def bnd_apply log_def Let_def)
  next
    case False
    with l inv show ?thesis
      by (simp add: emit_def emit_with_def bnd_apply log_def Let_def ret_def)
  qed
qed

lemma bnd_emit_returns:
  assumes "list_all (\<lambda>l. l = Returns) (listeners_of b (event_name ev))" "event_name ev \<noteq> ''error''"
  shows "bnd (emit env ev) f b = f (listeners_of b (event_name ev) \<noteq> []) (b\<lparr>trace := trace b @ [Emit ev]\<rparr>)"
  by (simp add: bnd_apply emit_returns[OF assms])

lemma emit_on_apply:
  "emit_on env x ev b =
     (case entity_emit env x ev of None \<Rightarrow> Return () | Some e \<Rightarrow> Throw e,
      b\<lparr>trace := trace b @ [EntityEmit x ev]\<rparr>)"
  by (simp add: emit_on_def call_def bnd_apply log_def ret_def throw_def split: option.splits)

lemma added_append [simp]: "added b (b\<lparr>trace := trace b @ t\<rparr>) = t"
  by (simp add: added_def)

lemma first_error_Cons:
  "first_error (x # xs) = (case x of None \<Rightarrow> first_error xs | Some e \<Rightarrow> Some e)"
  by (cases x) simp_all

lemma bnd_on_puppet:
  "puppet b = Some p \<Longrightarrow>
   bnd (on_puppet c outcome) f b =
     (case outcome of
        Inr v \<Rightarrow> f v (b\<lparr>trace := trace b @ [PuppetCall c]\<rparr>)
      | Inl e \<Rightarrow> (Throw e, b\<lparr>trace := trace b @ [PuppetCall c]\<rparr>))"
  by (simp add: prog_defs split: sum.splits)



lemma added_trace [simp]: "added b (b'\<lparr>trace := trace b @ t\<rparr>) = t"
  by (simp add: added_def)

lemma started_bot_facts:
  "listeners_of started_bot ''room-leave'' = []" "puppet started_bot \<noteq> None"
  by (simp_all add: started_bot_eq listeners_of_def)

section \<open>The outcome of \<^verbatim>\<open>start\<close>\<close>

lemma stop_calm:
  assumes "calm b" "switch_off (state b) = SFalse"
  shows "fst (stop env b) = Return ()"
    and "calm (snd (stop env b))"
    and "switch_off (state (snd (stop env b))) = STrue"
    and "lifeTimer (snd (stop env b)) = None"
    and "take (length (trace b)) (trace (snd (stop env b))) = trace b"
    and "last (trace (snd (stop env b))) = Emit EvStop"
    and "\<not> onResolved (state (snd (stop env b)))"
  using assms
  by (auto simp: stop_def prog_defs emit_calm switch_off_def switch_set_off_def
      split: option.splits sum.splits)

lemma keeps_steady_log: "\<not> failure_event a \<Longrightarrow> keeps (steady s t0) (log a)"
  by (auto simp: keeps_def log_def steady_def)

lemma keeps_steady_call: "\<not> failure_event a \<Longrightarrow> keeps (steady s t0) (call a outcome)"
  unfolding call_def
  by (intro keeps_bnd keeps_steady_log) (simp_all add: keeps_ret keeps_throw split: option.splits)

lemma keeps_steady_call_value: "\<not> failure_event a \<Longrightarrow> keeps (steady s t0) (call_value a outcome)"
  unfolding call_value_def
  by (intro keeps_bnd keeps_steady_log) (simp_all add: keeps_ret keeps_throw split: sum.splits)

lemma keeps_steady_on_puppet: "keeps (steady s t0) (on_puppet c outcome)"
  using keeps_steady_call_value[of "PuppetCall c" s t0 outcome]
  by (auto simp: keeps_def on_puppet_def split: option.splits)

lemma keeps_steady_emit_puppet: "keeps (steady s t0) (emit env (EvPuppet p))"
  by (auto simp: keeps_def steady_def emit_calm)

lemma keeps_initPuppetAccessory: "keeps (steady s t0) (initPuppetAccessory env p)"
  unfolding keeps_def
proof (intro allI impI)
  fix b assume "steady s t0 b"
  then have sb: "steady s t0 (b\<lparr>class_puppet :=
            map (\<lambda>c. (c, p)) [Contact, ContactSelf, Friendship, Image, Message, Room, RoomInvitation, Tag],
          puppet := Some p\<rparr>)" (is "steady s t0 ?b")
    by (simp add: steady_def)
  have k: "keeps (steady s t0) (bnd (emit env (EvPuppet p)) (\<lambda>_. ret ()))"
    by (intro keeps_bnd keeps_steady_emit_puppet keeps_ret)
  from keepsD[OF k sb]
  show "steady s t0 (snd (initPuppetAccessory env p b))
      \<and> (\<forall>t. fst (initPuppetAccessory env p b) \<noteq> Await t)"
    by (simp add: initPuppetAccessory_def)
qed

lemma keeps_initPuppet: "keeps (steady s t0) (initPuppet env)"
  unfolding keeps_def
proof (intro allI impI)
  fix b assume b: "steady s t0 b"
  let ?k = "\<lambda>m puppetInstance. case initPuppetEventBridge (PUPPET_EVENT_DICT_keys env)
                (puppetInstance\<lparr>puppet_memory := Some (Multiplex m ''puppet'')\<rparr>) of
           Inl e \<Rightarrow> throw e
         | Inr p \<Rightarrow> initPuppetAccessory env p"
  have k: "keeps (steady s t0) (bnd (call_value (PuppetResolve n) outcome) (?k m))" for n outcome m
    by (intro keeps_bnd keeps_steady_call_value)
       (simp_all add: keeps_throw keeps_initPuppetAccessory split: sum.splits)
  show "steady s t0 (snd (initPuppet env b)) \<and> (\<forall>t. fst (initPuppet env b) \<noteq> Await t)"
  proof (cases "puppet b")
    case (Some p)
    with b show ?thesis by (simp add: initPuppet_def)
  next
    case None
    show ?thesis
    proof (cases "memory b")
      case None
      with \<open>puppet b = None\<close> b show ?thesis by (simp add: initPuppet_def)
    next
      case (Some m)
      with \<open>puppet b = None\<close> keepsD[OF k b] show ?thesis
        by (simp add: initPuppet_def)
    qed
  qed
qed

lemma keeps_start_try: "keeps (steady s t0) (start_try env)"
  unfolding keeps_def
proof (intro allI impI)
  fix b assume b: "steady s t0 b"
  let ?b0 = "case memory b of
          None \<Rightarrow> b\<lparr>memory := Some (MemoryCard (opt_name (options b)))\<rparr>
        | Some _ \<Rightarrow> b"
  let ?tail = "\<lambda>(_::unit) b1.
     case opt_ioToken (options b1) of
       None \<Rightarrow> (Return True, b1)
     | Some token \<Rightarrow>
         if token = [] then (Return True, b1)
         else bnd (call IoStart (io_start env)) (\<lambda>_. ret True) (b1\<lparr>io := Some (Io token)\<rparr>)"
  have b0: "steady s t0 ?b0" using b by (simp add: steady_def split: option.splits)
  have tail: "keeps (steady s t0) (?tail u)" for u :: unit
    unfolding keeps_def
  proof (intro allI impI)
    fix b1 assume b1: "steady s t0 b1"
    then have "steady s t0 (b1\<lparr>io := Some (Io token)\<rparr>)" for token by (simp add: steady_def)
    from keepsD[OF keeps_bnd[OF keeps_steady_call keeps_ret] this, of IoStart "io_start env" "\<lambda>_. True"] b1
    show "steady s t0 (snd (?tail u b1)) \<and> (\<forall>t. fst (?tail u b1) \<noteq> Await t)"
      by (simp split: option.splits)
  qed
  have "keeps (steady s t0)
     (bnd (try_catch (call MemoryLoad (memory_load env)) (\<lambda>e. ret ())) (\<lambda>_.
      bnd (initPuppet env) (\<lambda>_.
      bnd (on_puppet PStart (unit_outcome (puppet_start env))) ?tail)))"
    by (intro keeps_bnd keeps_try_catch keeps_steady_call keeps_ret keeps_initPuppet
        keeps_steady_on_puppet tail) simp
  from keepsD[OF this b0]
  show "steady s t0 (snd (start_try env b)) \<and> (\<forall>t. fst (start_try env b) \<noteq> Await t)"
    by (simp add: start_try_def)
qed

lemma bridge_Inl: "bridge_error ks = Some e \<Longrightarrow> initPuppetEventBridge ks p = Inl e"
  by (induction ks arbitrary: p) (auto split: if_splits)

lemma bridge_Inr: "bridge_error ks = None \<Longrightarrow> \<exists>p'. initPuppetEventBridge ks p = Inr p'"
  by (induction ks arbitrary: p) (auto split: if_splits)

lemma initPuppet_outcome:
  assumes "calm b" "memory b \<noteq> None"
  shows "fst (initPuppet env b) =
     (case (if puppet b \<noteq> None then None
            else (case PuppetManager_resolve env of
                    Inl e \<Rightarrow> Some e
                  | Inr p \<Rightarrow> bridge_error (PUPPET_EVENT_DICT_keys env))) of
        Some e \<Rightarrow> Throw e
      | None \<Rightarrow> Return ())
    \<and> (fst (initPuppet env b) = Return () \<longrightarrow> puppet (snd (initPuppet env b)) \<noteq> None)
    \<and> options (snd (initPuppet env b)) = options b"
proof -
  obtain m where m: "memory b = Some m" using assms(2) by auto
  show ?thesis
  proof (cases "puppet b")
    case (Some p)
    then show ?thesis by (simp add: initPuppet_def)
  next
    case None
    show ?thesis
    proof (cases "PuppetManager_resolve env")
      case (Inl e)
      with None m show ?thesis by (simp add: initPuppet_def prog_defs)
    next
      case (Inr pi)
      let ?pi = "pi\<lparr>puppet_memory := Some (Multiplex m ''puppet'')\<rparr>"
      show ?thesis
      proof (cases "bridge_error (PUPPET_EVENT_DICT_keys env)")
        case (Some e)
        from bridge_Inl[OF this, of ?pi] None m Inr Some
        show ?thesis by (simp add: initPuppet_def prog_defs)
      next
        case nb: None
        from bridge_Inr[OF this, of ?pi] obtain p' where
          p': "initPuppetEventBridge (PUPPET_EVENT_DICT_keys env) ?pi = Inr p'" by auto
        from None m Inr nb p' assms(1)
        show ?thesis
          by (simp add: initPuppet_def initPuppetAccessory_def prog_defs emit_calm)
      qed
    qed
  qed
qed

lemma start_try_outcome:
  assumes "calm b"
  shows "fst (start_try env b) = (case start_failure env b of Some e \<Rightarrow> Throw e | None \<Rightarrow> Return True)"
proof -
  let ?b0 = "case memory b of
          None \<Rightarrow> b\<lparr>memory := Some (MemoryCard (opt_name (options b)))\<rparr>
        | Some _ \<Rightarrow> b"
  let ?b1 = "?b0\<lparr>trace := trace ?b0 @ [MemoryLoad]\<rparr>"
  let ?tail = "\<lambda>(_::unit) b1.
     case opt_ioToken (options b1) of
       None \<Rightarrow> (Return True, b1)
     | Some token \<Rightarrow>
         if token = [] then (Return True, b1)
         else bnd (call IoStart (io_start env)) (\<lambda>_. ret True) (b1\<lparr>io := Some (Io token)\<rparr>)"
  let ?init = "if puppet b \<noteq> None then None
            else (case PuppetManager_resolve env of
                    Inl e \<Rightarrow> Some e
                  | Inr p \<Rightarrow> bridge_error (PUPPET_EVENT_DICT_keys env))"
  have load: "try_catch (call MemoryLoad (memory_load env)) (\<lambda>e. ret ()) ?b0 = (Return (), ?b1)"
    by (simp add: prog_defs split: option.splits)
  have st: "start_try env b =
     bnd (initPuppet env) (\<lambda>_. bnd (on_puppet PStart (unit_outcome (puppet_start env))) ?tail) ?b1"
    by (simp add: start_try_def bnd_apply[of "try_catch _ _"] load)
  have b1: "calm ?b1" "memory ?b1 \<noteq> None" "puppet ?b1 = puppet b" "options ?b1 = options b"
    using assms by (simp_all split: option.splits)
  obtain r2 b2 where i: "initPuppet env ?b1 = (r2, b2)" by (cases "initPuppet env ?b1")
  from initPuppet_outcome[OF b1(1,2), of env] i b1(3,4)
  have r2: "r2 = (case ?init of Some e \<Rightarrow> Throw e | None \<Rightarrow> Return ())"
    and p2: "r2 = Return () \<longrightarrow> puppet b2 \<noteq> None"
    and o2: "options b2 = options b"
    by simp_all
  show ?thesis
  proof (cases ?init)
    case (Some e)
    with r2 have "r2 = Throw e" by simp
    with i st Some show ?thesis
      by (simp add: bnd_apply[of "initPuppet env"] start_failure_def)
  next
    case None
    with r2 have rr: "r2 = Return ()" by simp
    with p2 obtain p where p: "puppet b2 = Some p" by auto
    from rr i st have st2: "start_try env b =
       bnd (on_puppet PStart (unit_outcome (puppet_start env))) ?tail b2"
      by (simp add: bnd_apply[of "initPuppet env"])
    show ?thesis
    proof (cases "puppet_start env")
      case (Some e)
      with st2 p None show ?thesis
        by (simp add: bnd_on_puppet[OF p] unit_outcome_def start_failure_def)
    next
      case ps: None
      with st2 p None o2 show ?thesis
        by (cases "opt_ioToken (options b)"; cases "io_start env")
           (simp_all add: bnd_on_puppet[OF p] unit_outcome_def start_failure_def falsy_def prog_defs)
    qed
  qed
qed

lemma find_first:
  "list_all (\<lambda>a. \<not> P a) xs \<Longrightarrow> P y \<Longrightarrow> find P (xs @ y # ys) = Some y"
  by (induction xs) auto

lemma start_enter_steady:
  "calm b \<Longrightarrow> lifeTimer b = None \<Longrightarrow>
   steady (switch_set_on True (state b)) (trace b) (snd (start_enter b))"
  by (simp add: start_enter_def steady_def)

lemma start_failure_enter:
  "start_failure env (snd (start_enter b)) = start_failure env b"
  by (cases "lifeTimer b") (simp_all add: start_failure_def start_enter_def)

text \<open>What \<^verbatim>\<open>start\<close> has done when it resolves, by the outcome of its start sequence.\<close>

lemma start_run_cases:
  assumes h: "switch_on (state b) = SFalse" "lifeTimer b = None" "calm b"
  shows "fst (start env b) = Return ()
    \<and> take (length (trace b)) (trace (snd (start env b))) = trace b
    \<and> (case start_failure env b of
         Some e \<Rightarrow>
           find failure_event (added b (snd (start env b))) = Some (Emit (EvError e))
           \<and> last (trace (snd (start env b))) = Emit EvStop
           \<and> switch_off (state (snd (start env b))) = STrue
           \<and> \<not> onResolved (state (snd (start env b)))
       | None \<Rightarrow>
           list_all (\<lambda>a. \<not> failure_event a) (added b (snd (start env b)))
           \<and> last (trace (snd (start env b))) = Emit EvStart
           \<and> switch_on (state (snd (start env b))) = STrue
           \<and> onResolved (state (snd (start env b))))"
proof -
  let ?s = "switch_set_on True (state b)"
  let ?b0 = "snd (start_enter b)"
  have b0: "steady ?s (trace b) ?b0" using h by (simp add: start_enter_steady)
  have off: "switch_off ?s = SFalse" by (simp add: switch_off_def switch_set_on_def)
  have st: "start env b = start_run env ?b0" using h by (simp add: start_unfold)
  obtain r b1 where t: "start_try env ?b0 = (r, b1)" by (cases "start_try env ?b0")
  from keepsD(1)[OF keeps_start_try b0, of env] t have b1: "steady ?s (trace b) b1" by simp
  then obtain t1 where t1: "trace b1 = trace b @ t1" "list_all (\<lambda>a. \<not> failure_event a) t1"
    and c1: "calm b1" and s1: "state b1 = ?s"
    by (auto simp: steady_def)
  from b0 have "calm ?b0" by (simp add: steady_def)
  from start_try_outcome[OF this, of env] t
  have r: "r = (case start_failure env b of Some e \<Rightarrow> Throw e | None \<Rightarrow> Return True)"
    by (simp add: start_failure_enter)
  show ?thesis
  proof (cases "start_failure env b")
    case None
    with r have rr: "r = Return True" by simp
    let ?b2 = "b1\<lparr>listeners := listeners b1 @ [(''heartbeat'', MemoryCheck)],
        lifeTimer := Some (1000 * 60 * 60), state := switch_set_on False (state b1)\<rparr>"
    from c1 have "calm ?b2" by (simp add: calm_on_heartbeat)
    from emit_calm[OF this, of EvStart env] rr t
    have "start_run env ?b0 = (Return (), ?b2\<lparr>trace := trace b1 @ [Emit EvStart]\<rparr>)"
      by (simp add: start_run_def bnd_apply try_catch_def on_def ret_def)
    with st t1 None show ?thesis
      by (simp add: added_def switch_on_def switch_set_on_def)
  next
    case (Some e)
    with r have rr: "r = Throw e" by simp
    let ?b2 = "b1\<lparr>trace := trace b1 @ [Emit (EvError e)]\<rparr>"
    from c1 have em: "emit env (EvError e) b1 = (Return (listeners_of b1 ''error'' \<noteq> []), ?b2)"
      by (simp add: emit_calm)
    from c1 s1 off have c2: "calm ?b2" "switch_off (state ?b2) = SFalse" by simp_all
    note sc = stop_calm[OF c2, of env]
    from sc(1) obtain b3 where b3: "stop env ?b2 = (Return (), b3)"
      by (cases "stop env ?b2") auto
    have run: "start_run env ?b0 = (Return (), b3)"
      by (simp add: start_run_def start_catch_def bnd_apply try_catch_def t rr em b3 ret_def)
    from sc(5) b3 have "take (length (trace ?b2)) (trace b3) = trace ?b2" by simp
    then have "trace b3 = trace ?b2 @ drop (length (trace ?b2)) (trace b3)"
      by (metis append_take_drop_id)
    then obtain ts where ts: "trace b3 = trace b @ t1 @ Emit (EvError e) # ts"
      using t1(1) by auto
    then have a: "added b b3 = t1 @ Emit (EvError e) # ts" by (simp add: added_def)
    from find_first[OF t1(2), of "Emit (EvError e)" ts] a
    have f: "find failure_event (added b b3) = Some (Emit (EvError e))" by simp
    from st run ts f sc(3,6,7) b3 Some show ?thesis by simp
  qed
qed

text \<open>
  C1 (as amended). On a bot whose state is not on, whose \<open>lifeTimer\<close> is not set and
  whose listeners are calm, \<^verbatim>\<open>start\<close> resolves, and only adds to the trace. When the
  start sequence raises \<open>e\<close> (in the puppet's initialisation, in \<^verbatim>\<open>puppet.start()\<close>
  or in \<^verbatim>\<open>io.start()\<close>), the first \<^verbatim>\<open>'error'\<close> or \<^verbatim>\<open>'stop'\<close> event that \<^verbatim>\<open>start\<close>
  has emitted is \<^verbatim>\<open>'error'\<close> with \<open>e\<close>, the last thing it has done is to emit
  \<^verbatim>\<open>'stop'\<close>, and the state is off. When it raises nothing, a rejection of
  \<^verbatim>\<open>memory.load()\<close> included, \<^verbatim>\<open>start\<close> has emitted no \<^verbatim>\<open>'error'\<close> and no \<^verbatim>\<open>'stop'\<close>,
  the last thing it has done is to emit \<^verbatim>\<open>'start'\<close>, and the state is on. On a bot
  whose state is off and whose \<open>lifeTimer\<close> is set, \<^verbatim>\<open>start\<close> rejects with the error
  of its guard.
\<close>

theorem start_resolves:
  "(switch_on (state b) = SFalse \<and> lifeTimer b = None \<and> calm b \<longrightarrow>
      fst (start env b) = Return ()
      \<and> take (length (trace b)) (trace (snd (start env b))) = trace b
      \<and> (case start_failure env b of
           Some e \<Rightarrow>
             find failure_event (added b (snd (start env b))) = Some (Emit (EvError e))
             \<and> last (trace (snd (start env b))) = Emit EvStop
             \<and> switch_off (state (snd (start env b))) = STrue
         | None \<Rightarrow>
             list_all (\<lambda>a. \<not> failure_event a) (added b (snd (start env b)))
             \<and> last (trace (snd (start env b))) = Emit EvStart
             \<and> switch_on (state (snd (start env b))) = STrue))
   \<and> (switch_on (state b) = SFalse \<and> lifeTimer b \<noteq> None \<longrightarrow>
        fst (start env b) = Throw (Error ''start() lifeTimer exist''))"
proof (intro conjI impI)
  assume h: "switch_on (state b) = SFalse \<and> lifeTimer b = None \<and> calm b"
  then have c: "fst (start env b) = Return ()
    \<and> take (length (trace b)) (trace (snd (start env b))) = trace b
    \<and> (case start_failure env b of
         Some e \<Rightarrow>
           find failure_event (added b (snd (start env b))) = Some (Emit (EvError e))
           \<and> last (trace (snd (start env b))) = Emit EvStop
           \<and> switch_off (state (snd (start env b))) = STrue
           \<and> \<not> onResolved (state (snd (start env b)))
       | None \<Rightarrow>
           list_all (\<lambda>a. \<not> failure_event a) (added b (snd (start env b)))
           \<and> last (trace (snd (start env b))) = Emit EvStart
           \<and> switch_on (state (snd (start env b))) = STrue
           \<and> onResolved (state (snd (start env b))))"
    by (intro start_run_cases) simp_all
  from c show "fst (start env b) = Return ()" by simp
  from c show "take (length (trace b)) (trace (snd (start env b))) = trace b" by simp
  from c show "case start_failure env b of
           Some e \<Rightarrow>
             find failure_event (added b (snd (start env b))) = Some (Emit (EvError e))
             \<and> last (trace (snd (start env b))) = Emit EvStop
             \<and> switch_off (state (snd (start env b))) = STrue
         | None \<Rightarrow>
             list_all (\<lambda>a. \<not> failure_event a) (added b (snd (start env b)))
             \<and> last (trace (snd (start env b))) = Emit EvStart
             \<and> switch_on (state (snd (start env b))) = STrue"
    by (simp split: option.splits)
next
  assume "switch_on (state b) = SFalse \<and> lifeTimer b \<noteq> None"
  then show "fst (start env b) = Throw (Error ''start() lifeTimer exist'')"
    by (auto simp: start_def start_enter_def bnd_apply)
qed

lemma start_failure_examples:
  "start_failure failing_env example_bot = Some (Error ''puppet start failed'')"
  "start_failure memory_failing_env example_bot = None"
  "start_failure example_env example_bot = None"
  by (simp_all add: start_failure_def failing_env_def memory_failing_env_def example_env_def
      example_bot_eq bridged_def empty_options_def falsy_def)

theorem start_resolves_witness:
  "switch_on (state example_bot) = SFalse \<and> lifeTimer example_bot = None \<and> calm example_bot
   \<and> fst (start failing_env example_bot) = Return ()
   \<and> find failure_event (added example_bot (snd (start failing_env example_bot)))
       = Some (Emit (EvError (Error ''puppet start failed'')))
   \<and> last (trace (snd (start failing_env example_bot))) = Emit EvStop
   \<and> switch_off (state (snd (start failing_env example_bot))) = STrue
   \<and> memory_load memory_failing_env = Some (Error ''memory load failed'')
   \<and> fst (start memory_failing_env example_bot) = Return ()
   \<and> list_all (\<lambda>a. \<not> failure_event a) (added example_bot (snd (start memory_failing_env example_bot)))
   \<and> last (trace (snd (start memory_failing_env example_bot))) = Emit EvStart
   \<and> switch_on (state (snd (start memory_failing_env example_bot))) = STrue
   \<and> switch_on (state (example_bot\<lparr>lifeTimer := Some 3600000\<rparr>)) = SFalse
   \<and> lifeTimer (example_bot\<lparr>lifeTimer := Some 3600000\<rparr>) \<noteq> None
   \<and> fst (start example_env (example_bot\<lparr>lifeTimer := Some 3600000\<rparr>))
       = Throw (Error ''start() lifeTimer exist'')"
proof -
  have m: "memory_load memory_failing_env = Some (Error ''memory load failed'')"
    by (simp add: memory_failing_env_def)
  have l: "switch_on (state (example_bot\<lparr>lifeTimer := Some 3600000\<rparr>)) = SFalse"
    "lifeTimer (example_bot\<lparr>lifeTimer := Some 3600000\<rparr>) \<noteq> None"
    using example_bot_hyps by simp_all
  from start_resolves[of example_bot failing_env] start_resolves[of example_bot memory_failing_env]
    start_resolves[of "example_bot\<lparr>lifeTimer := Some 3600000\<rparr>" example_env]
    example_bot_hyps start_failure_examples m l
  show ?thesis by simp
qed

text \<open>
  C1 as stated fails: with the state off and a \<open>lifeTimer\<close> set, \<^verbatim>\<open>start\<close> rejects
  with the error of its guard, which stands before the \<^verbatim>\<open>try\<close> statement. It fails
  also on a bot without a listener of \<^verbatim>\<open>'error'\<close> whose \<^verbatim>\<open>puppet.start()\<close> rejects:
  \<^verbatim>\<open>this.emit('error', e)\<close> in the \<^verbatim>\<open>catch\<close> block throws \<open>e\<close>, and \<^verbatim>\<open>start\<close>
  rejects with it.
\<close>

theorem start_lifeTimer_counterexample:
  "switch_on (state (example_bot\<lparr>lifeTimer := Some 3600000\<rparr>)) = SFalse
   \<and> calm (example_bot\<lparr>lifeTimer := Some 3600000\<rparr>)
   \<and> fst (start example_env (example_bot\<lparr>lifeTimer := Some 3600000\<rparr>))
       = Throw (Error ''start() lifeTimer exist'')
   \<and> switch_on (state bare_bot) = SFalse
   \<and> lifeTimer bare_bot = None
   \<and> fst (start failing_env bare_bot) = Throw (Error ''puppet start failed'')"
proof -
  have bare: "bare_bot = example_bot\<lparr>listeners := []\<rparr>"
    by (simp add: bare_bot_def example_bot_eq new_Wechaty_def installGlobalPlugin_def
        example_env_def empty_options_def falsy_def)
  show ?thesis
    by (simp add: bare example_bot_eq failing_env_def example_env_def run_defs calm_def)
qed

section \<open>A second call of \<^verbatim>\<open>start\<close>\<close>

lemma resume_await:
  "resume (Await StateOn) b = (if onResolved (state b) then Return () else Await StateOn)"
  by (simp add: resume_def resolved_def)

text \<open>
  C5 (as amended). A call of \<^verbatim>\<open>start\<close> on a bot whose state is on or pending-on
  changes nothing (the trace included, so it calls nothing of the backend): it returns
  at once when the on-promise is resolved, waits for it otherwise, and resolves once
  it is. When a first call has passed \<^verbatim>\<open>this.state.on('pending')\<close> on a bot with calm
  listeners, a second call made meanwhile is suspended on the on-promise, and the
  first call resolves. When the start sequence of the first call succeeds, the state
  is then on, the second call resolves, and a later call returns at once. When the
  start sequence fails, the state is then off and the second call is still suspended.
\<close>

theorem start_reentrant:
  "(switch_on (state b) \<noteq> SFalse \<longrightarrow>
      start env2 b = (if onResolved (state b) then Return () else Await StateOn, b)
      \<and> (\<forall>b'. onResolved (state b') \<longrightarrow> resume (fst (start env2 b)) b' = Return ()))
   \<and> (switch_on (state b) = SFalse \<and> \<not> onResolved (state b) \<and> lifeTimer b = None \<and> calm b \<longrightarrow>
      switch_on (state (snd (start_enter b))) = SPending
      \<and> start env2 (snd (start_enter b)) = (Await StateOn, snd (start_enter b))
      \<and> start env b = start_run env (snd (start_enter b))
      \<and> fst (start env b) = Return ()
      \<and> (case start_failure env b of
           None \<Rightarrow>
             switch_on (state (snd (start env b))) = STrue
             \<and> resume (Await StateOn) (snd (start env b)) = Return ()
             \<and> start env2 (snd (start env b)) = (Return (), snd (start env b))
         | Some e \<Rightarrow>
             switch_off (state (snd (start env b))) = STrue
             \<and> resume (Await StateOn) (snd (start env b)) = Await StateOn))"
proof (intro conjI impI)
  assume on: "switch_on (state b) \<noteq> SFalse"
  then show "start env2 b = (if onResolved (state b) then Return () else Await StateOn, b)"
    by (rule start_guard)
  from on show "\<forall>b'. onResolved (state b') \<longrightarrow> resume (fst (start env2 b)) b' = Return ()"
    by (simp add: resume_guard)
next
  assume h: "switch_on (state b) = SFalse \<and> \<not> onResolved (state b) \<and> lifeTimer b = None \<and> calm b"
  let ?b1 = "snd (start_enter b)"
  from h have c: "fst (start env b) = Return ()
    \<and> take (length (trace b)) (trace (snd (start env b))) = trace b
    \<and> (case start_failure env b of
         Some e \<Rightarrow>
           find failure_event (added b (snd (start env b))) = Some (Emit (EvError e))
           \<and> last (trace (snd (start env b))) = Emit EvStop
           \<and> switch_off (state (snd (start env b))) = STrue
           \<and> \<not> onResolved (state (snd (start env b)))
       | None \<Rightarrow>
           list_all (\<lambda>a. \<not> failure_event a) (added b (snd (start env b)))
           \<and> last (trace (snd (start env b))) = Emit EvStart
           \<and> switch_on (state (snd (start env b))) = STrue
           \<and> onResolved (state (snd (start env b))))"
    by (intro start_run_cases) simp_all
  from h have p: "switch_on (state ?b1) = SPending" "\<not> onResolved (state ?b1)"
    by (simp_all add: start_enter_def switch_on_def switch_set_on_def)
  show "switch_on (state ?b1) = SPending" by (rule p(1))
  from p show "start env2 ?b1 = (Await StateOn, ?b1)" by (simp add: start_guard)
  from h show "start env b = start_run env ?b1" by (simp add: start_unfold)
  from c show "fst (start env b) = Return ()" by simp
  show "case start_failure env b of
           None \<Rightarrow>
             switch_on (state (snd (start env b))) = STrue
             \<and> resume (Await StateOn) (snd (start env b)) = Return ()
             \<and> start env2 (snd (start env b)) = (Return (), snd (start env b))
         | Some e \<Rightarrow>
             switch_off (state (snd (start env b))) = STrue
             \<and> resume (Await StateOn) (snd (start env b)) = Await StateOn"
  proof (cases "start_failure env b")
    case None
    with c have "switch_on (state (snd (start env b))) = STrue" "onResolved (state (snd (start env b)))"
      by simp_all
    with None show ?thesis by (simp add: resume_await start_guard)
  next
    case (Some e)
    with c show ?thesis by (simp add: resume_await)
  qed
qed

lemma example_bot_unresolved: "\<not> onResolved (state example_bot)"
  by (simp add: example_bot_eq new_StateSwitch_def)

theorem start_reentrant_witness:
  "switch_on (state example_bot) = SFalse \<and> \<not> onResolved (state example_bot)
   \<and> lifeTimer example_bot = None \<and> calm example_bot
   \<and> switch_on (state (snd (start_enter example_bot))) = SPending
   \<and> start failing_env (snd (start_enter example_bot)) = (Await StateOn, snd (start_enter example_bot))
   \<and> fst (start example_env example_bot) = Return ()
   \<and> switch_on (state (snd (start example_env example_bot))) = STrue
   \<and> resume (Await StateOn) (snd (start example_env example_bot)) = Return ()
   \<and> start failing_env (snd (start example_env example_bot)) = (Return (), snd (start example_env example_bot))
   \<and> fst (start failing_env example_bot) = Return ()
   \<and> switch_off (state (snd (start failing_env example_bot))) = STrue
   \<and> resume (Await StateOn) (snd (start failing_env example_bot)) = Await StateOn"
proof -
  note h = example_bot_hyps example_bot_unresolved
  from start_reentrant[of example_bot failing_env example_env] h
  have a1: "switch_on (state (snd (start_enter example_bot))) = SPending"
    "start failing_env (snd (start_enter example_bot)) = (Await StateOn, snd (start_enter example_bot))"
    "fst (start example_env example_bot) = Return ()"
    and a2: "case start_failure example_env example_bot of
           None \<Rightarrow>
             switch_on (state (snd (start example_env example_bot))) = STrue
             \<and> resume (Await StateOn) (snd (start example_env example_bot)) = Return ()
             \<and> start failing_env (snd (start example_env example_bot))
                 = (Return (), snd (start example_env example_bot))
         | Some e \<Rightarrow>
             switch_off (state (snd (start example_env example_bot))) = STrue
             \<and> resume (Await StateOn) (snd (start example_env example_bot)) = Await StateOn"
    by blast+
  from a2 start_failure_examples(3)
  have a3: "switch_on (state (snd (start example_env example_bot))) = STrue
             \<and> resume (Await StateOn) (snd (start example_env example_bot)) = Return ()
             \<and> start failing_env (snd (start example_env example_bot))
                 = (Return (), snd (start example_env example_bot))"
    by simp
  from start_reentrant[of example_bot example_env failing_env] h
  have b1: "fst (start failing_env example_bot) = Return ()"
    and b2: "case start_failure failing_env example_bot of
           None \<Rightarrow>
             switch_on (state (snd (start failing_env example_bot))) = STrue
             \<and> resume (Await StateOn) (snd (start failing_env example_bot)) = Return ()
             \<and> start example_env (snd (start failing_env example_bot))
                 = (Return (), snd (start failing_env example_bot))
         | Some e \<Rightarrow>
             switch_off (state (snd (start failing_env example_bot))) = STrue
             \<and> resume (Await StateOn) (snd (start failing_env example_bot)) = Await StateOn"
    by blast+
  from b2 start_failure_examples(1)
  have b3: "switch_off (state (snd (start failing_env example_bot))) = STrue
             \<and> resume (Await StateOn) (snd (start failing_env example_bot)) = Await StateOn"
    by simp
  from a1 a3 b1 b3 h show ?thesis by blast
qed

text \<open>
  C5 as stated fails when the start sequence of the first call fails. The first call
  has set the state to pending-on, the second call waits for the on-promise; then
  \<^verbatim>\<open>puppet.start()\<close> rejects, the first call runs \<^verbatim>\<open>stop\<close> and resolves with the
  state settled to off, and the second call is still waiting: it does not return.
\<close>

theorem start_reentrant_counterexample:
  "switch_on (state (snd (start_enter example_bot))) = SPending
   \<and> start example_env (snd (start_enter example_bot)) = (Await StateOn, snd (start_enter example_bot))
   \<and> start failing_env example_bot = start_run failing_env (snd (start_enter example_bot))
   \<and> fst (start failing_env example_bot) = Return ()
   \<and> switch_off (state (snd (start failing_env example_bot))) = STrue
   \<and> resume (Await StateOn) (snd (start failing_env example_bot)) = Await StateOn"
proof -
  have e: "switch_on (state (snd (start_enter example_bot))) = SPending"
    "\<not> onResolved (state (snd (start_enter example_bot)))"
    by (simp_all add: example_bot_eq start_enter_def switch_on_def switch_set_on_def new_StateSwitch_def)
  have r: "fst (start failing_env example_bot) = Return ()"
    "switch_off (state (snd (start failing_env example_bot))) = STrue"
    "\<not> onResolved (state (snd (start failing_env example_bot)))"
    by (simp_all add: example_bot_eq failing_env_def example_env_def run_defs)
  from e r start_unfold[OF example_bot_hyps(1,2), of failing_env] show ?thesis
    by (simp add: start_guard resume_await)
qed

section \<open>The \<^verbatim>\<open>'message'\<close> listener of the bridge\<close>

lemma keeps_ext_log: "keeps (\<lambda>b. \<exists>t. trace b = t0 @ t) (log a)"
  by (auto simp: keeps_def log_def)

lemma keeps_ext_call: "keeps (\<lambda>b. \<exists>t. trace b = t0 @ t) (call a outcome)"
  unfolding call_def
  by (intro keeps_bnd keeps_ext_log) (cases outcome; simp add: keeps_ret keeps_throw)



lemma keeps_invoke_with:
  "keeps I mc \<Longrightarrow> keeps I (invoke_with mc ls)"
  by (induction mc ls rule: invoke_with.induct) (simp_all add: keeps_ret keeps_throw keeps_bnd)

lemma keeps_listeners:
  assumes "keeps I mc"
  shows "keeps I (\<lambda>b. let ls = listeners_of b (event_name ev) in
       if ls = [] then (case ev of EvError e \<Rightarrow> (Throw e, b) | _ \<Rightarrow> (Return False, b))
       else bnd (invoke_with mc ls) (\<lambda>_. ret True) b)"
  unfolding keeps_def
proof (intro allI impI)
  fix b assume b: "I b"
  show "I (snd (let ls = listeners_of b (event_name ev) in
       if ls = [] then (case ev of EvError e \<Rightarrow> (Throw e, b) | _ \<Rightarrow> (Return False, b))
       else bnd (invoke_with mc ls) (\<lambda>_. ret True) b))
     \<and> (\<forall>t. fst (let ls = listeners_of b (event_name ev) in
       if ls = [] then (case ev of EvError e \<Rightarrow> (Throw e, b) | _ \<Rightarrow> (Return False, b))
       else bnd (invoke_with mc ls) (\<lambda>_. ret True) b) \<noteq> Await t)"
  proof (cases "listeners_of b (event_name ev) = []")
    case True
    with b show ?thesis by (cases ev) simp_all
  next
    case False
    have "keeps I (bnd (invoke_with mc (listeners_of b (event_name ev))) (\<lambda>_. ret True))"
      by (intro keeps_bnd keeps_invoke_with assms keeps_ret)
    from keepsD[OF this b] False show ?thesis by (simp add: Let_def)
  qed
qed

lemma keeps_emit_with:
  assumes "keeps I mc" "keeps I (log (Emit ev))"
  shows "keeps I (emit_with mc ev)"
  unfolding emit_with_def by (intro keeps_bnd keeps_listeners assms)

lemma keeps_memoryCheck:
  assumes "\<And>a. keeps I (log a)"
  shows "keeps I (memoryCheck env)"
proof (cases "freemem env div 1024 div 1024 < 4")
  case True
  have "keeps I (bnd (emit_with (ret ()) (EvError (Error ''memory not enough''))) (\<lambda>_. ret ()))"
    by (intro keeps_bnd keeps_emit_with keeps_ret assms)
  with True show ?thesis by (simp add: memoryCheck_def)
next
  case False
  then show ?thesis by (simp add: memoryCheck_def keeps_ret)
qed

lemma emit_after_log:
  "bnd (emit env ev) f b =
     bnd (\<lambda>b. let ls = listeners_of b (event_name ev) in
            if ls = [] then (case ev of EvError e \<Rightarrow> (Throw e, b) | _ \<Rightarrow> (Return False, b))
            else bnd (invoke_with (memoryCheck env) ls) (\<lambda>_. ret True) b) f
       (b\<lparr>trace := trace b @ [Emit ev]\<rparr>)"
  by (simp add: emit_def emit_with_def bnd_assoc) (simp add: bnd_apply log_def)

lemma emit_extends:
  assumes "\<And>x. keeps (\<lambda>b'. \<exists>t. trace b' = (trace b @ [Emit ev]) @ t) (f x)"
  shows "\<exists>t. trace (snd (bnd (emit env ev) f b)) = trace b @ Emit ev # t"
proof -
  let ?I = "\<lambda>b'. \<exists>t. trace b' = (trace b @ [Emit ev]) @ t"
  have "keeps ?I (bnd (\<lambda>b. let ls = listeners_of b (event_name ev) in
            if ls = [] then (case ev of EvError e \<Rightarrow> (Throw e, b) | _ \<Rightarrow> (Return False, b))
            else bnd (invoke_with (memoryCheck env) ls) (\<lambda>_. ret True) b) f)"
    by (intro keeps_bnd keeps_listeners keeps_memoryCheck keeps_ext_log assms)
  from keepsD(1)[OF this, of "b\<lparr>trace := trace b @ [Emit ev]\<rparr>"]
  show ?thesis by (simp add: emit_after_log)
qed

lemma keeps_ext_emit_on: "keeps (\<lambda>b. \<exists>t. trace b = t0 @ t) (emit_on env x ev)"
  unfolding emit_on_def by (rule keeps_ext_call)

lemma keeps_room_of: "keeps I (room_of env msg)"
  by (cases msg) (simp add: room_of_def keeps_ret keeps_throw split: sum.splits option.splits)

lemma invoke_with_plain:
  "MemoryCheck \<notin> set ls \<Longrightarrow>
   invoke_with mc ls b = (case first_throw ls of None \<Rightarrow> Return () | Some e \<Rightarrow> Throw e, b)"
  by (induction mc ls rule: invoke_with.induct) (simp_all add: ret_def throw_def)

lemma bnd_emit_plain:
  assumes "MemoryCheck \<notin> set (listeners_of b (event_name ev))" "event_name ev \<noteq> ''error''"
  shows "bnd (emit env ev) f b =
    (case first_throw (listeners_of b (event_name ev)) of
       None \<Rightarrow> f (listeners_of b (event_name ev) \<noteq> []) (b\<lparr>trace := trace b @ [Emit ev]\<rparr>)
     | Some e \<Rightarrow> (Throw e, b\<lparr>trace := trace b @ [Emit ev]\<rparr>))"
proof (cases "listeners_of b (event_name ev) = []")
  case True
  from assms(2) have "\<forall>e. ev \<noteq> EvError e" by auto
  with True show ?thesis
    by (subst emit_after_log, cases ev) (simp_all add: bnd_apply Let_def)
next
  case False
  with assms(1) show ?thesis
    by (subst emit_after_log)
      (simp add: bnd_apply Let_def invoke_with_plain ret_def split: option.splits)
qed

lemma message_unfold:
  "handler env (PuppetMessage i) b =
     (case entity_ready env (Entity Message i) of
        Some e \<Rightarrow> (Throw e, b\<lparr>trace := trace b @ [LoadCall (Entity Message i), ReadyCall (Entity Message i)]\<rparr>)
      | None \<Rightarrow>
          bnd (emit env (EvMessage (Entity Message i))) (\<lambda>_.
          bnd (room_of env (Entity Message i)) (\<lambda>room.
          case room of
            Some r \<Rightarrow> emit_on env r (OnMessage (Entity Message i))
          | None \<Rightarrow> ret ()))
            (b\<lparr>trace := trace b @ [LoadCall (Entity Message i), ReadyCall (Entity Message i)]\<rparr>))"
  by (simp add: bnd_load bnd_ready split: option.splits)

text \<open>
  C3 (as amended). The listener of \<^verbatim>\<open>'message'\<close> loads the message and calls
  \<^verbatim>\<open>ready()\<close> on it before anything else. When \<^verbatim>\<open>ready()\<close> rejects, the listener
  rejects with that error and nothing is emitted. When it resolves, the next action is
  the emission of the bot-level \<^verbatim>\<open>'message'\<close> event, whatever the listeners are. With
  listeners of \<^verbatim>\<open>'message'\<close> that are functions of the application (the closure of
  \<^verbatim>\<open>memoryCheck\<close> is registered on \<^verbatim>\<open>'heartbeat'\<close> only), the run is then known in
  full: when a listener throws, \<^verbatim>\<open>emit\<close> throws, the listener of the bridge
  rejects and no Room-scoped event follows; when none throws, the Room-scoped
  \<^verbatim>\<open>'message'\<close> event follows exactly when \<^verbatim>\<open>msg.room()\<close> gives a room, and nothing
  else is emitted.
\<close>

theorem message_order:
  "(entity_ready env (Entity Message i) = Some e \<longrightarrow>
      handler env (PuppetMessage i) b =
        (Throw e, b\<lparr>trace := trace b @ [LoadCall (Entity Message i), ReadyCall (Entity Message i)]\<rparr>))
   \<and> (entity_ready env (Entity Message i) = None \<longrightarrow>
      trace (snd (handler env (PuppetMessage i) b))
        = trace b @ added b (snd (handler env (PuppetMessage i) b))
      \<and> take 3 (added b (snd (handler env (PuppetMessage i) b)))
        = [LoadCall (Entity Message i), ReadyCall (Entity Message i), Emit (EvMessage (Entity Message i))])
   \<and> (entity_ready env (Entity Message i) = None \<and> MemoryCheck \<notin> set (listeners_of b ''message'') \<longrightarrow>
      added b (snd (handler env (PuppetMessage i) b))
        = [LoadCall (Entity Message i), ReadyCall (Entity Message i), Emit (EvMessage (Entity Message i))]
          @ (case first_throw (listeners_of b ''message'') of
               Some e' \<Rightarrow> []
             | None \<Rightarrow>
                 (case message_room env i of
                    Inr (Some r) \<Rightarrow> [EntityEmit (Entity Room r) (OnMessage (Entity Message i))]
                  | _ \<Rightarrow> []))
      \<and> fst (handler env (PuppetMessage i) b)
        = (case first_throw (listeners_of b ''message'') of
             Some e' \<Rightarrow> Throw e'
           | None \<Rightarrow>
               (case message_room env i of
                  Inl e' \<Rightarrow> Throw e'
                | Inr None \<Rightarrow> Return ()
                | Inr (Some r) \<Rightarrow>
                    (case entity_emit env (Entity Room r) (OnMessage (Entity Message i)) of
                       None \<Rightarrow> Return ()
                     | Some e' \<Rightarrow> Throw e'))))"
proof (intro conjI impI)
  assume "entity_ready env (Entity Message i) = Some e"
  then show "handler env (PuppetMessage i) b =
        (Throw e, b\<lparr>trace := trace b @ [LoadCall (Entity Message i), ReadyCall (Entity Message i)]\<rparr>)"
    by (simp add: message_unfold del: handler.simps)
next
  assume r: "entity_ready env (Entity Message i) = None"
  let ?m = "Entity Message i"
  let ?b2 = "b\<lparr>trace := trace b @ [LoadCall ?m, ReadyCall ?m]\<rparr>"
  have "\<exists>t. trace (snd (bnd (emit env (EvMessage ?m)) (\<lambda>_.
          bnd (room_of env ?m) (\<lambda>room.
          case room of
            Some r \<Rightarrow> emit_on env r (OnMessage ?m)
          | None \<Rightarrow> ret ())) ?b2)) = trace ?b2 @ Emit (EvMessage ?m) # t"
  proof (rule emit_extends)
    fix x :: bool
    show "keeps (\<lambda>b'. \<exists>t. trace b' = (trace ?b2 @ [Emit (EvMessage ?m)]) @ t)
       (bnd (room_of env ?m) (\<lambda>room.
          case room of
            Some r \<Rightarrow> emit_on env r (OnMessage ?m)
          | None \<Rightarrow> ret ()))"
    proof (intro keeps_bnd keeps_room_of)
      fix room :: "entity option"
      show "keeps (\<lambda>b'. \<exists>t. trace b' = (trace ?b2 @ [Emit (EvMessage ?m)]) @ t)
        (case room of Some r \<Rightarrow> emit_on env r (OnMessage ?m) | None \<Rightarrow> ret ())"
      proof (cases room)
        case None
        then show ?thesis by (simp only: option.case keeps_ret)
      next
        case (Some r)
        then show ?thesis by (simp only: option.case keeps_ext_emit_on)
      qed
    qed
  qed
  with r obtain t where t: "trace (snd (handler env (PuppetMessage i) b))
      = trace b @ [LoadCall ?m, ReadyCall ?m, Emit (EvMessage ?m)] @ t"
    by (auto simp: message_unfold simp del: handler.simps)
  then have a: "added b (snd (handler env (PuppetMessage i) b))
      = [LoadCall ?m, ReadyCall ?m, Emit (EvMessage ?m)] @ t"
    by (simp add: added_def)
  from t a show "trace (snd (handler env (PuppetMessage i) b))
        = trace b @ added b (snd (handler env (PuppetMessage i) b))"
    by simp
  from a show "take 3 (added b (snd (handler env (PuppetMessage i) b)))
        = [LoadCall ?m, ReadyCall ?m, Emit (EvMessage ?m)]"
    by simp
next
  assume h: "entity_ready env (Entity Message i) = None \<and> MemoryCheck \<notin> set (listeners_of b ''message'')"
  let ?m = "Entity Message i"
  let ?b2 = "b\<lparr>trace := trace b @ [LoadCall ?m, ReadyCall ?m]\<rparr>"
  from h have l: "MemoryCheck \<notin> set (listeners_of ?b2 (event_name (EvMessage ?m)))"
    by simp
  from h have u: "handler env (PuppetMessage i) b =
     (case first_throw (listeners_of b ''message'') of
        None \<Rightarrow>
          (case message_room env i of
             Inl e \<Rightarrow> (Throw e, b\<lparr>trace := trace b @ [LoadCall ?m, ReadyCall ?m, Emit (EvMessage ?m)]\<rparr>)
           | Inr None \<Rightarrow> (Return (), b\<lparr>trace := trace b @ [LoadCall ?m, ReadyCall ?m, Emit (EvMessage ?m)]\<rparr>)
           | Inr (Some r) \<Rightarrow>
               (case entity_emit env (Entity Room r) (OnMessage ?m) of None \<Rightarrow> Return () | Some e \<Rightarrow> Throw e,
                b\<lparr>trace := trace b @ [LoadCall ?m, ReadyCall ?m, Emit (EvMessage ?m),
                    EntityEmit (Entity Room r) (OnMessage ?m)]\<rparr>))
      | Some e \<Rightarrow> (Throw e, b\<lparr>trace := trace b @ [LoadCall ?m, ReadyCall ?m, Emit (EvMessage ?m)]\<rparr>))"
    by (simp add: message_unfold bnd_emit_plain[OF l] bnd_room_of emit_on_apply ret_def
        del: handler.simps split: option.splits sum.splits)
  show "added b (snd (handler env (PuppetMessage i) b))
        = [LoadCall ?m, ReadyCall ?m, Emit (EvMessage ?m)]
          @ (case first_throw (listeners_of b ''message'') of
               Some e' \<Rightarrow> []
             | None \<Rightarrow>
                 (case message_room env i of
                    Inr (Some r) \<Rightarrow> [EntityEmit (Entity Room r) (OnMessage ?m)]
                  | _ \<Rightarrow> []))"
    by (simp add: u del: handler.simps split: option.splits sum.splits)
  show "fst (handler env (PuppetMessage i) b)
        = (case first_throw (listeners_of b ''message'') of
             Some e' \<Rightarrow> Throw e'
           | None \<Rightarrow>
               (case message_room env i of
                  Inl e' \<Rightarrow> Throw e'
                | Inr None \<Rightarrow> Return ()
                | Inr (Some r) \<Rightarrow>
                    (case entity_emit env (Entity Room r) (OnMessage ?m) of
                       None \<Rightarrow> Return ()
                     | Some e' \<Rightarrow> Throw e')))"
    by (simp add: u del: handler.simps split: option.splits sum.splits)
qed

lemma message_bots:
  "listeners_of listening_bot ''message'' = [Returns]"
  "listeners_of throwing_bot ''message'' = [Throws (Error ''listener failed'')]"
  "listeners_of started_bot ''message'' = []"
  by (simp_all add: listening_bot_def throwing_bot_def on_def started_bot_eq listeners_of_def)

lemma example_env_message:
  "entity_ready example_env x = None"
  "message_room example_env i = Inr (Some ''room-1'')"
  "entity_emit example_env x ev = None"
  "entity_ready ready_failing_env x = Some (Error ''payload fetch failed'')"
  by (simp_all add: example_env_def ready_failing_env_def)

theorem message_order_witness:
  "entity_ready ready_failing_env (Entity Message ''m1'') = Some (Error ''payload fetch failed'')
   \<and> handler ready_failing_env (PuppetMessage ''m1'') listening_bot =
        (Throw (Error ''payload fetch failed''),
         listening_bot\<lparr>trace := trace listening_bot @ [LoadCall (Entity Message ''m1''), ReadyCall (Entity Message ''m1'')]\<rparr>)
   \<and> entity_ready example_env (Entity Message ''m1'') = None
   \<and> MemoryCheck \<notin> set (listeners_of listening_bot ''message'')
   \<and> take 3 (added listening_bot (snd (handler example_env (PuppetMessage ''m1'') listening_bot)))
        = [LoadCall (Entity Message ''m1''), ReadyCall (Entity Message ''m1''),
           Emit (EvMessage (Entity Message ''m1''))]
   \<and> added listening_bot (snd (handler example_env (PuppetMessage ''m1'') listening_bot))
        = [LoadCall (Entity Message ''m1''), ReadyCall (Entity Message ''m1''),
           Emit (EvMessage (Entity Message ''m1'')),
           EntityEmit (Entity Room ''room-1'') (OnMessage (Entity Message ''m1''))]
   \<and> fst (handler example_env (PuppetMessage ''m1'') listening_bot) = Return ()"
proof -
  have h: "entity_ready ready_failing_env (Entity Message ''m1'') = Some (Error ''payload fetch failed'')"
    "entity_ready example_env (Entity Message ''m1'') = None"
    "MemoryCheck \<notin> set (listeners_of listening_bot ''message'')"
    by (simp_all add: example_env_message message_bots)
  from message_order[of ready_failing_env "''m1''" "Error ''payload fetch failed''" listening_bot] h(1)
  have a: "handler ready_failing_env (PuppetMessage ''m1'') listening_bot =
        (Throw (Error ''payload fetch failed''),
         listening_bot\<lparr>trace := trace listening_bot @ [LoadCall (Entity Message ''m1''), ReadyCall (Entity Message ''m1'')]\<rparr>)"
    by blast
  from message_order[of example_env "''m1''" "Error []" listening_bot] h(2,3)
  have b: "take 3 (added listening_bot (snd (handler example_env (PuppetMessage ''m1'') listening_bot)))
        = [LoadCall (Entity Message ''m1''), ReadyCall (Entity Message ''m1''),
           Emit (EvMessage (Entity Message ''m1''))]
     \<and> added listening_bot (snd (handler example_env (PuppetMessage ''m1'') listening_bot))
        = [LoadCall (Entity Message ''m1''), ReadyCall (Entity Message ''m1''),
           Emit (EvMessage (Entity Message ''m1''))]
          @ (case first_throw (listeners_of listening_bot ''message'') of
               Some e' \<Rightarrow> []
             | None \<Rightarrow>
                 (case message_room example_env ''m1'' of
                    Inr (Some r) \<Rightarrow> [EntityEmit (Entity Room r) (OnMessage (Entity Message ''m1''))]
                  | _ \<Rightarrow> []))
     \<and> fst (handler example_env (PuppetMessage ''m1'') listening_bot)
        = (case first_throw (listeners_of listening_bot ''message'') of
             Some e' \<Rightarrow> Throw e'
           | None \<Rightarrow>
               (case message_room example_env ''m1'' of
                  Inl e' \<Rightarrow> Throw e'
                | Inr None \<Rightarrow> Return ()
                | Inr (Some r) \<Rightarrow>
                    (case entity_emit example_env (Entity Room r) (OnMessage (Entity Message ''m1'')) of
                       None \<Rightarrow> Return ()
                     | Some e' \<Rightarrow> Throw e')))"
    by blast
  from a b h show ?thesis
    by (simp add: example_env_message message_bots)
qed

text \<open>
  C3 as stated fails when a listener that the application has registered on
  \<^verbatim>\<open>'message'\<close> throws: the message is hydrated and \<^verbatim>\<open>msg.room()\<close> gives a room, the
  bot-level event is emitted, \<^verbatim>\<open>emit\<close> throws the exception of the listener, the
  listener of the bridge rejects with it, and the Room-scoped event is never emitted.
\<close>

theorem message_order_counterexample:
  "entity_ready example_env (Entity Message ''m1'') = None
   \<and> message_room example_env ''m1'' = Inr (Some ''room-1'')
   \<and> handler example_env (PuppetMessage ''m1'') throwing_bot =
       (Throw (Error ''listener failed''),
        throwing_bot\<lparr>trace := trace throwing_bot @
          [LoadCall (Entity Message ''m1''), ReadyCall (Entity Message ''m1''),
           Emit (EvMessage (Entity Message ''m1''))]\<rparr>)
   \<and> EntityEmit (Entity Room ''room-1'') (OnMessage (Entity Message ''m1''))
       \<notin> set (added throwing_bot (snd (handler example_env (PuppetMessage ''m1'') throwing_bot)))"
proof -
  have l: "MemoryCheck \<notin> set (listeners_of
      (throwing_bot\<lparr>trace := trace throwing_bot @ [LoadCall (Entity Message ''m1''), ReadyCall (Entity Message ''m1'')]\<rparr>)
      (event_name (EvMessage (Entity Message ''m1''))))"
    by (simp add: message_bots)
  have "handler example_env (PuppetMessage ''m1'') throwing_bot =
       (Throw (Error ''listener failed''),
        throwing_bot\<lparr>trace := trace throwing_bot @
          [LoadCall (Entity Message ''m1''), ReadyCall (Entity Message ''m1''),
           Emit (EvMessage (Entity Message ''m1''))]\<rparr>)"
    by (simp add: message_unfold example_env_message bnd_emit_plain[OF l] message_bots
        del: handler.simps)
  then show ?thesis
    by (simp add: example_env_message)
qed

section \<open>Hydration failures in the listeners of the bridge\<close>

lemma bnd_sync:
  "bnd (sync env (Entity c i)) f b =
     (case puppet b of
        None \<Rightarrow> (Throw (TypeError ''Cannot read properties of undefined''), b)
      | Some p \<Rightarrow>
          (case puppet_roomPayloadDirty env i of
             Some e \<Rightarrow> (Throw e, b\<lparr>trace := trace b @ [PuppetCall (PRoomPayloadDirty i)]\<rparr>)
           | None \<Rightarrow>
               (case puppet_roomMemberPayloadDirty env i of
                  Some e \<Rightarrow> (Throw e, b\<lparr>trace := trace b @
                      [PuppetCall (PRoomPayloadDirty i), PuppetCall (PRoomMemberPayloadDirty i)]\<rparr>)
                | None \<Rightarrow>
                    (case entity_sync env (Entity c i) of
                       Some e \<Rightarrow> (Throw e, b\<lparr>trace := trace b @
                           [PuppetCall (PRoomPayloadDirty i), PuppetCall (PRoomMemberPayloadDirty i),
                            SyncCall (Entity c i)]\<rparr>)
                     | None \<Rightarrow> f () (b\<lparr>trace := trace b @
                           [PuppetCall (PRoomPayloadDirty i), PuppetCall (PRoomMemberPayloadDirty i),
                            SyncCall (Entity c i)]\<rparr>)))))"
  by (simp add: sync_def prog_defs split: option.splits)

lemma bnd_ready_all:
  "bnd (ready_all env xs) f b =
     (case earliest_rejection env xs of
        None \<Rightarrow> f () (b\<lparr>trace := trace b @ map ReadyCall xs\<rparr>)
      | Some (t, e) \<Rightarrow> (Throw e, b\<lparr>trace := trace b @ map ReadyCall xs\<rparr>))"
  by (simp add: ready_all_def bnd_apply Let_def split: option.splits)

lemmas handler_steps = bnd_load bnd_ready bnd_sync bnd_load_all bnd_ready_all first_error_Cons
  first_error_append comp_def room_sync_failure_def

text \<open>
  C2 (as amended). When a hydration fails in the listener of one of the seven events,
  the listener rejects with the error of the hydration that fails first (of the
  \<^verbatim>\<open>ready()\<close> calls awaited together, the one that rejects first in time), and it has
  emitted nothing: neither \<^verbatim>\<open>'error'\<close> nor the event it was to emit, on the bot or on
  an entity.
\<close>

theorem hydration_failure_rejects:
  assumes "hydration_failure env b ev = Some e"
  shows "fst (handler env ev b) = Throw e
    \<and> trace (snd (handler env ev b)) = trace b @ added b (snd (handler env ev b))
    \<and> list_all (\<lambda>a. \<not> emission a) (added b (snd (handler env ev b)))"
proof (cases ev)
  case (PuppetFriendship i)
  with assms show ?thesis by (simp add: handler_steps)
next
  case (PuppetLogin i)
  with assms show ?thesis by (simp add: handler_steps)
next
  case (PuppetLogout i d)
  with assms show ?thesis by (simp add: handler_steps)
next
  case (PuppetMessage i)
  with assms show ?thesis by (simp add: handler_steps)
next
  case (PuppetRoomJoin r "is" inv ts)
  with assms show ?thesis
    by (auto simp: handler_steps list_all_iff split: option.splits)
next
  case (PuppetRoomLeave r "is" rem ts)
  with assms show ?thesis
    by (auto simp: handler_steps list_all_iff split: option.splits)
next
  case (PuppetRoomTopic r n o' c ts)
  with assms show ?thesis
    by (auto simp: handler_steps split: option.splits)
qed (use assms in simp_all)

lemma racing_env_facts:
  "hydration_failure racing_env started_bot (PuppetRoomJoin ''room-1'' [''c1'', ''c2''] ''c3'' 1600000000)
     = Some (Error ''c2 failed'')"
  "entity_ready racing_env (Entity Contact ''c1'') = Some (Error ''c1 failed'')"
  "entity_ready racing_env (Entity Contact ''c2'') = Some (Error ''c2 failed'')"
  "settles_at racing_env (Entity Contact ''c2'') < settles_at racing_env (Entity Contact ''c1'')"
  by (simp_all add: racing_env_def example_env_def room_sync_failure_def started_bot_eq)

theorem hydration_failure_rejects_witness:
  "hydration_failure racing_env started_bot (PuppetRoomJoin ''room-1'' [''c1'', ''c2''] ''c3'' 1600000000)
     = Some (Error ''c2 failed'')
   \<and> entity_ready racing_env (Entity Contact ''c1'') = Some (Error ''c1 failed'')
   \<and> settles_at racing_env (Entity Contact ''c2'') < settles_at racing_env (Entity Contact ''c1'')
   \<and> fst (handler racing_env (PuppetRoomJoin ''room-1'' [''c1'', ''c2''] ''c3'' 1600000000) started_bot)
     = Throw (Error ''c2 failed'')
   \<and> list_all (\<lambda>a. \<not> emission a)
       (added started_bot
         (snd (handler racing_env (PuppetRoomJoin ''room-1'' [''c1'', ''c2''] ''c3'' 1600000000) started_bot)))"
proof -
  note h = racing_env_facts
  from hydration_failure_rejects[OF h(1)] h show ?thesis by blast
qed

text \<open>
  C2 as stated fails: when \<^verbatim>\<open>friendship.ready()\<close> rejects, the listener of
  \<^verbatim>\<open>'friendship'\<close> rejects and the bot emits no \<^verbatim>\<open>'error'\<close>.
\<close>

theorem friendship_failure_counterexample:
  "fst (handler ready_failing_env (PuppetFriendship ''f1'') started_bot)
     = Throw (Error ''payload fetch failed'')
   \<and> added started_bot (snd (handler ready_failing_env (PuppetFriendship ''f1'') started_bot))
     = [LoadCall (Entity Friendship ''f1''), ReadyCall (Entity Friendship ''f1'')]
   \<and> (\<forall>e. Emit (EvError e) \<notin> set (trace (snd (handler ready_failing_env (PuppetFriendship ''f1'') started_bot))))"
proof -
  have run: "handler ready_failing_env (PuppetFriendship ''f1'') b =
      (Throw (Error ''payload fetch failed''),
       b\<lparr>trace := trace b @ [LoadCall (Entity Friendship ''f1''), ReadyCall (Entity Friendship ''f1'')]\<rparr>)"
    for b
    by (simp add: handler_steps ready_failing_env_def example_env_def)
  have quiet: "\<forall>e. Emit (EvError e) \<notin> set (trace started_bot)"
    by (simp add: started_bot_eq)
  show ?thesis by (simp add: run quiet del: handler.simps)
qed

section \<open>The \<^verbatim>\<open>'room-leave'\<close> listener of the bridge\<close>



















section \<open>The first action of \<^verbatim>\<open>Moment.post\<close>\<close>

lemma post_first_action:
  assumes "puppet b = Some p" "generateMomentPayload x = Inr m"
  shows "take 1 (added b (snd (post env x b))) = [PuppetCall (PMomentPost m)]"
  using assms
  by (simp add: post_def bnd_on_puppet bnd_load bnd_ready ret_def throw_def added_def
      split: sum.splits option.splits)

text \<open>
  C4. The claim asks for a validation error before any backend call; the source has
  the check only as a \<^verbatim>\<open>FIXME\<close> comment. For a post without any item the conversion
  succeeds with a structure that has no populated field, and the first thing that
  \<^verbatim>\<open>Moment.post\<close> does on a started bot, whatever the backend answers, is to hand
  that structure to \<^verbatim>\<open>puppet.momentPost\<close>.
\<close>

theorem post_empty_reaches_backend:
  "generateMomentPayload empty_post = Inr empty_moment
   \<and> take 1 (added started_bot (snd (post env empty_post started_bot)))
       = [PuppetCall (PMomentPost empty_moment)]"
proof -
  have g: "generateMomentPayload empty_post = Inr empty_moment"
    by (simp add: generateMomentPayload_def empty_post_def empty_moment_def)
  from started_bot_facts(2) obtain p where "puppet started_bot = Some p" by auto
  from post_first_action[OF this g] g show ?thesis by simp
qed

end
